theory Spec2Isabelle
  imports Main
begin

section \<open>Python values, exceptions and the builtins the workflows use\<close>

text \<open>
  The workflows of \<^verbatim>\<open>src/agent/re_agent.py\<close> and \<^verbatim>\<open>src/agent/re_agent_v2.py\<close> pass
  Python dictionaries around whose values come from JSON bodies and from the language
  model. A value is \<open>None\<close>, a bool, an int, a str, a list or a dict with string keys
  (an association list; the first binding of a key is the one \<open>get\<close> reads). Floats
  do not occur in the fields the program inspects and are left out.
\<close>

datatype pyval =
    PNone
  | PBool bool
  | PInt int
  | PStr string
  | PList "pyval list"
  | PDict "(string \<times> pyval) list"

text \<open>
  Exceptions are values. \<open>RuntimeFailure\<close> stands for every exception raised by a
  collaborator (the HTTP client, the JSON decoder, the language-model client); it carries
  the text that \<open>str(e)\<close> yields.
\<close>

datatype exn =
    AttributeError string string
  | KeyError string
  | TypeError string
  | ValueError string
  | RuntimeFailure string

definition quoted :: "string \<Rightarrow> string" where
  "quoted s = [CHR 0x27] @ s @ [CHR 0x27]"

fun str_exn :: "exn \<Rightarrow> string" where
  "str_exn (AttributeError ty attr) = quoted ty @ '' object has no attribute '' @ quoted attr"
| "str_exn (KeyError k) = quoted k"
| "str_exn (TypeError m) = m"
| "str_exn (ValueError m) = m"
| "str_exn (RuntimeFailure m) = m"

fun type_name :: "pyval \<Rightarrow> string" where
  "type_name PNone = ''NoneType''"
| "type_name (PBool b) = ''bool''"
| "type_name (PInt i) = ''int''"
| "type_name (PStr s) = ''str''"
| "type_name (PList xs) = ''list''"
| "type_name (PDict kvs) = ''dict''"

text \<open>Truth value testing: \<open>if x\<close>, \<open>not x\<close>.\<close>

fun truthy :: "pyval \<Rightarrow> bool" where
  "truthy PNone = False"
| "truthy (PBool b) = b"
| "truthy (PInt i) = (i \<noteq> 0)"
| "truthy (PStr s) = (s \<noteq> [])"
| "truthy (PList xs) = (xs \<noteq> [])"
| "truthy (PDict kvs) = (kvs \<noteq> [])"

text \<open>\<open>x.get(key, default)\<close>: only a dict has the method.\<close>

fun dict_get :: "pyval \<Rightarrow> string \<Rightarrow> pyval \<Rightarrow> exn + pyval" where
  "dict_get (PDict kvs) k d = Inr (case map_of kvs k of None \<Rightarrow> d | Some v \<Rightarrow> v)"
| "dict_get v k d = Inl (AttributeError (type_name v) ''get'')"

text \<open>
  Iteration (\<open>for x in v\<close>): a list yields its elements, a dict its keys, a str its
  characters; anything else raises \<open>TypeError\<close>.
\<close>

fun py_iter :: "pyval \<Rightarrow> exn + pyval list" where
  "py_iter (PList xs) = Inr xs"
| "py_iter (PDict kvs) = Inr (map (\<lambda>kv. PStr (fst kv)) kvs)"
| "py_iter (PStr s) = Inr (map (\<lambda>c. PStr [c]) s)"
| "py_iter v = Inl (TypeError (quoted (type_name v) @ '' object is not iterable''))"

text \<open>Substring test on strings: \<open>needle in hay\<close>.\<close>

fun starts_with :: "string \<Rightarrow> string \<Rightarrow> bool" where
  "starts_with [] hay = True"
| "starts_with (p # ps) [] = False"
| "starts_with (p # ps) (x # xs) = (p = x \<and> starts_with ps xs)"

fun str_contains :: "string \<Rightarrow> string \<Rightarrow> bool" where
  "str_contains needle [] = (needle = [])"
| "str_contains needle (x # xs) = (starts_with needle (x # xs) \<or> str_contains needle xs)"

text \<open>
  \<open>needle in v\<close> for a str needle: substring of a str, element of a list, key of a
  dict; \<open>TypeError\<close> otherwise, and also for a str container with a needle that is not
  a str (no such needle occurs: every needle of the program is a literal).
\<close>

fun py_in :: "string \<Rightarrow> pyval \<Rightarrow> exn + bool" where
  "py_in needle (PStr s) = Inr (str_contains needle s)"
| "py_in needle (PList xs) = Inr (PStr needle \<in> set xs)"
| "py_in needle (PDict kvs) = Inr (needle \<in> set (map fst kvs))"
| "py_in needle v = Inl (TypeError (''argument of type '' @ quoted (type_name v) @ '' is not iterable''))"

text \<open>
  The case mapping of the ASCII letters and the ASCII white space. A \<open>string\<close> is a
  list of bytes, the UTF-8 text of the Python str.
\<close>

definition lower_char :: "char \<Rightarrow> char" where
  "lower_char c =
     (case map_of (zip ''ABCDEFGHIJKLMNOPQRSTUVWXYZ'' ''abcdefghijklmnopqrstuvwxyz'') c of
        None \<Rightarrow> c
      | Some l \<Rightarrow> l)"

definition upper_char :: "char \<Rightarrow> char" where
  "upper_char c =
     (case map_of (zip ''abcdefghijklmnopqrstuvwxyz'' ''ABCDEFGHIJKLMNOPQRSTUVWXYZ'') c of
        None \<Rightarrow> c
      | Some u \<Rightarrow> u)"

definition is_ascii :: "char \<Rightarrow> bool" where
  "is_ascii c = (\<not> digit7 c)"

definition is_space :: "char \<Rightarrow> bool" where
  "is_space c =
     (c \<in> set [CHR 0x09, CHR 0x0A, CHR 0x0B, CHR 0x0C, CHR 0x0D,
                 CHR 0x1C, CHR 0x1D, CHR 0x1E, CHR 0x1F, CHR 0x20])"

text \<open>\<open>str.strip\<close>, on the ASCII white space.\<close>

definition py_strip :: "string \<Rightarrow> string" where
  "py_strip s = rev (dropWhile is_space (rev (dropWhile is_space s)))"

text \<open>\<open>v.strip()\<close> on an arbitrary value: only a str has the method.\<close>

fun strip_val :: "pyval \<Rightarrow> exn + string" where
  "strip_val (PStr s) = Inr (py_strip s)"
| "strip_val v = Inl (AttributeError (type_name v) ''strip'')"

text \<open>The decimal text of an int, as \<open>str\<close> and an f-string give it.\<close>

definition digit_char :: "nat \<Rightarrow> char" where
  "digit_char d = ''0123456789'' ! d"

function str_nat :: "nat \<Rightarrow> string" where
  "str_nat n = (if n < 10 then [digit_char n] else str_nat (n div 10) @ [digit_char (n mod 10)])"
  by pat_completeness auto
termination
  by (relation "measure (\<lambda>n. n)") auto

definition str_int :: "int \<Rightarrow> string" where
  "str_int i = (if i < 0 then CHR ''-'' # str_nat (nat (- i)) else str_nat (nat i))"

text \<open>\<open>s.split(sep)\<close> for a one-character separator.\<close>

fun split_on :: "char \<Rightarrow> string \<Rightarrow> string list" where
  "split_on sep [] = [[]]"
| "split_on sep (x # xs) =
     (if x = sep then [] # split_on sep xs
      else (case split_on sep xs of [] \<Rightarrow> [[x]] | p # ps \<Rightarrow> (x # p) # ps))"

section \<open>The outside world\<close>

text \<open>
  An HTTP exchange either raises inside \<open>requests\<close> (no response) or yields a status
  code and a body whose \<open>json()\<close> is a value or raises.
\<close>

datatype http_result =
    RequestFailed string
  | Response int "string + pyval"

text \<open>
  The environment of one run: the module-level configuration read from the process
  environment, and the collaborators as oracles. \<open>endpoint env n\<close> is what the HTTP
  client does in the \<open>n\<close>-th invocation (counted from 0) of the helper that calls the
  endpoint, and \<open>run_post_text env n\<close>, \<open>run_get_text env n\<close> the \<open>response.text\<close> of the
  two Azure DevOps endpoints there. \<open>llm_invoke env n\<close> is what the \<open>n\<close>-th
  \<open>llm.invoke\<close> does (it raises, or returns a message with that \<open>content\<close>).
  \<open>stdout_write env text\<close> is what \<open>print\<close> does with a text: \<open>None\<close> when it is
  written, the exception when the stream cannot encode or take it.

  Parameters of the interpreter: \<open>int_of_str\<close> is the builtin \<open>int\<close> on a str (\<open>Inl\<close> the
  text of its \<open>ValueError\<close>); \<open>int_max_str_digits\<close> the limit on the digits of an int
  that is turned into text (4300 by default, \<open>None\<close> where there is no limit);
  \<open>builtin_str\<close> the text of a list or dict (it raises when an element has none);
  \<open>unicode_lower\<close> and \<open>unicode_capitalize\<close> are \<open>str.lower\<close> and \<open>str.capitalize\<close> on a
  str that is not pure ASCII.
\<close>

record env =
  azure_devops_pat :: "string option"
  azure_devops_pipeline_id :: "string option"
  conversations_list :: "nat \<Rightarrow> http_result"
  conversations_history :: "nat \<Rightarrow> http_result"
  users_info :: "nat \<Rightarrow> http_result"
  pipeline_run_post :: "nat \<Rightarrow> http_result"
  pipeline_run_get :: "nat \<Rightarrow> http_result"
  run_post_text :: "nat \<Rightarrow> string"
  run_get_text :: "nat \<Rightarrow> string"
  llm_invoke :: "nat \<Rightarrow> exn + pyval"
  stdout_write :: "string \<Rightarrow> exn option"
  int_of_str :: "string \<Rightarrow> string + int"
  int_max_str_digits :: "nat option"
  builtin_str :: "pyval \<Rightarrow> exn + string"
  unicode_lower :: "string \<Rightarrow> string"
  unicode_capitalize :: "string \<Rightarrow> string"

text \<open>
  What a run has done to the world so far: invocations of each helper that talks to a
  collaborator (\<open>get_slack_channel_id\<close>, \<open>get_slack_messages\<close>, the \<open>users.info\<close>
  request, \<open>llm.invoke\<close>, \<open>trigger_azure_pipeline\<close>, \<open>get_pipeline_status\<close>) and calls
  of \<open>time.sleep\<close>. The counters index the oracles and are what a test double would
  record as call counts.
\<close>

record ctr =
  list_calls :: nat
  history_calls :: nat
  users_calls :: nat
  llm_calls :: nat
  trigger_calls :: nat
  status_checks :: nat
  sleeps :: nat

definition ctr0 :: ctr where
  "ctr0 = \<lparr>list_calls = 0, history_calls = 0, users_calls = 0, llm_calls = 0,
           trigger_calls = 0, status_checks = 0, sleeps = 0\<rparr>"

definition sleep :: "ctr \<Rightarrow> ctr" where
  "sleep c = c\<lparr>sleeps := Suc (sleeps c)\<rparr>"

text \<open>
  \<open>AZURE_DEVOPS_TOKEN\<close> is the Base64 text of \<open>":" + PAT\<close> when the PAT is set and not
  empty, and \<open>None\<close> otherwise; only its truth value is read.
\<close>

definition azure_devops_token_set :: "env \<Rightarrow> bool" where
  "azure_devops_token_set e = (case azure_devops_pat e of None \<Rightarrow> False | Some p \<Rightarrow> p \<noteq> [])"

text \<open>
  \<open>str.lower\<close> and \<open>str.capitalize\<close>: the mapping of the ASCII letters on a str of
  ASCII characters, the Unicode mapping of the environment on any other.
\<close>

definition py_lower :: "env \<Rightarrow> string \<Rightarrow> string" where
  "py_lower e s = (if list_all is_ascii s then map lower_char s else unicode_lower e s)"

definition py_capitalize :: "env \<Rightarrow> string \<Rightarrow> string" where
  "py_capitalize e s =
     (if list_all is_ascii s then
        (case s of [] \<Rightarrow> [] | c # cs \<Rightarrow> upper_char c # map lower_char cs)
      else unicode_capitalize e s)"

text \<open>\<open>v.lower()\<close> on an arbitrary value: only a str has the method.\<close>

fun lower_val :: "env \<Rightarrow> pyval \<Rightarrow> exn + string" where
  "lower_val e (PStr s) = Inr (py_lower e s)"
| "lower_val e v = Inl (AttributeError (type_name v) ''lower'')"

text \<open>
  The text of a value inside an f-string. An int with more digits than the limit has
  none: the conversion raises \<open>ValueError\<close>.
\<close>

definition digit_limit_error :: "nat \<Rightarrow> exn" where
  "digit_limit_error lim =
     ValueError (''Exceeds the limit ('' @ str_nat lim @
       '' digits) for integer string conversion; use sys.set_int_max_str_digits() to increase the limit'')"

definition py_str :: "env \<Rightarrow> pyval \<Rightarrow> exn + string" where
  "py_str e v =
     (case v of
        PStr s \<Rightarrow> Inr s
      | PNone \<Rightarrow> Inr ''None''
      | PBool b \<Rightarrow> Inr (if b then ''True'' else ''False'')
      | PInt i \<Rightarrow>
          (case int_max_str_digits e of
             None \<Rightarrow> Inr (str_int i)
           | Some lim \<Rightarrow>
               if lim < length (str_nat (nat \<bar>i\<bar>)) then Inl (digit_limit_error lim)
               else Inr (str_int i))
      | PList xs \<Rightarrow> builtin_str e v
      | PDict kvs \<Rightarrow> builtin_str e v)"

text \<open>
  An f-string: literal text and interpolated values, formatted from left to right.
  \<open>print\<close> formats its argument and writes the text to standard output; either step
  can raise.
\<close>

datatype piece = Lit string | Val pyval

fun fstring :: "env \<Rightarrow> piece list \<Rightarrow> exn + string" where
  "fstring e [] = Inr []"
| "fstring e (Lit s # ps) =
     (case fstring e ps of Inl ex \<Rightarrow> Inl ex | Inr rest \<Rightarrow> Inr (s @ rest))"
| "fstring e (Val v # ps) =
     (case py_str e v of
        Inl ex \<Rightarrow> Inl ex
      | Inr s \<Rightarrow> (case fstring e ps of Inl ex \<Rightarrow> Inl ex | Inr rest \<Rightarrow> Inr (s @ rest)))"

definition py_print :: "env \<Rightarrow> piece list \<Rightarrow> exn option" where
  "py_print e ps = (case fstring e ps of Inl ex \<Rightarrow> Some ex | Inr text \<Rightarrow> stdout_write e text)"

section \<open>State records\<close>

text \<open>
  The workflow state is a \<open>TypedDict\<close>: a dictionary from field names to values. A node
  returns a partial update, a dictionary literal of the fields it writes (an association
  list with distinct keys).
\<close>

type_synonym state = "string \<rightharpoonup> pyval"

type_synonym update = "(string \<times> pyval) list"

text \<open>\<open>state.get(k)\<close> and \<open>state.get(k, d)\<close>; \<open>state[k]\<close> raises \<open>KeyError\<close>.\<close>

definition state_get :: "state \<Rightarrow> string \<Rightarrow> pyval \<Rightarrow> pyval" where
  "state_get s k d = (case s k of None \<Rightarrow> d | Some v \<Rightarrow> v)"

definition state_item :: "state \<Rightarrow> string \<Rightarrow> exn + pyval" where
  "state_item s k = (case s k of None \<Rightarrow> Inl (KeyError k) | Some v \<Rightarrow> Inr v)"

text \<open>Sequencing of two steps the first of which may raise.\<close>

definition bind_exn :: "exn + 'a \<Rightarrow> ('a \<Rightarrow> exn + 'b) \<Rightarrow> exn + 'b" where
  "bind_exn m f = (case m of Inl ex \<Rightarrow> Inl ex | Inr v \<Rightarrow> f v)"

section \<open>Azure DevOps helpers and the status-polling node\<close>

text \<open>
  The \<open>try\<close> block of \<open>get_pipeline_status\<close> (lines 145-151), on the outcome of the
  request: the decoded body on status 200; on any other status the helper prints the
  status and the body text and returns \<open>None\<close>. An exception of the request, of
  \<open>json()\<close> or of that \<open>print\<close> goes to the \<open>except\<close> clause.
\<close>

definition status_response :: "env \<Rightarrow> http_result \<Rightarrow> string \<Rightarrow> exn + pyval" where
  "status_response e r body_text =
     (case r of
        RequestFailed m \<Rightarrow> Inl (RuntimeFailure m)
      | Response code body \<Rightarrow>
          if code = 200 then
            (case body of Inl m \<Rightarrow> Inl (RuntimeFailure m) | Inr j \<Rightarrow> Inr j)
          else
            (case py_print e [Lit ''Error getting pipeline status: '', Lit (str_int code),
                              Lit '' - '', Lit body_text] of
               Some ex \<Rightarrow> Inl ex
             | None \<Rightarrow> Inr PNone))"

text \<open>
  \<open>get_pipeline_status\<close> (lines 129-154), in its \<open>n\<close>-th invocation. Without a token
  it returns \<open>None\<close>. The URL is an f-string over both ids, built before the \<open>try\<close>; an
  id that has no text makes the helper raise. The \<open>except\<close> clause prints the exception
  and returns \<open>None\<close>; an exception of this last \<open>print\<close> leaves the helper.
\<close>

definition get_pipeline_status :: "env \<Rightarrow> pyval \<Rightarrow> pyval \<Rightarrow> nat \<Rightarrow> exn + pyval" where
  "get_pipeline_status e pipeline_id run_id n =
     (if \<not> azure_devops_token_set e then Inr PNone
      else
        (case fstring e [Lit ''_apis/pipelines/'', Val pipeline_id, Lit ''/runs/'', Val run_id,
                         Lit ''?api-version=7.1''] of
           Inl ex \<Rightarrow> Inl ex
         | Inr url \<Rightarrow>
             (case status_response e (pipeline_run_get e n) (run_get_text e n) of
                Inr v \<Rightarrow> Inr v
              | Inl ex \<Rightarrow>
                  (case py_print e [Lit ''Exception getting pipeline status: '',
                                    Lit (str_exn ex)] of
                     Some ex' \<Rightarrow> Inl ex'
                   | None \<Rightarrow> Inr PNone))))"

definition max_attempts :: nat where
  "max_attempts = 100"

text \<open>
  Lines 335-343: the status text of a run that is completed, \<open>None\<close> for a run that is
  not; \<open>lower\<close> raises on a state or a result that is no str.
\<close>

definition completed_status :: "env \<Rightarrow> pyval \<Rightarrow> exn + string option" where
  "completed_status e run_info =
     bind_exn (dict_get run_info ''state'' (PStr [])) (\<lambda>st.
     bind_exn (lower_val e st) (\<lambda>state_value.
     bind_exn (dict_get run_info ''result'' PNone) (\<lambda>res.
     bind_exn (if truthy res then bind_exn (lower_val e res) (\<lambda>l. Inr (Some l)) else Inr None)
       (\<lambda>result_value.
         if state_value = ''completed'' then
           (case result_value of
              None \<Rightarrow> Inr (Some ''Completed'')
            | Some l \<Rightarrow>
                if l \<noteq> [] then Inr (Some (''Completed - '' @ py_capitalize e l))
                else Inr (Some ''Completed''))
         else Inr None))))"

text \<open>
  One pass through the \<open>try\<close> block of the \<open>while\<close> loop (lines 332-358), in the
  \<open>n\<close>-th status check of the run: the run is completed (with the status text), the
  pass ends in \<open>time.sleep\<close> and another attempt, or it raised. Every branch prints a
  line before it returns or sleeps.
\<close>

datatype poll_step = Completed string | StillPending | Raised exn

definition poll_pass :: "env \<Rightarrow> pyval \<Rightarrow> pyval \<Rightarrow> nat \<Rightarrow> nat \<Rightarrow> poll_step" where
  "poll_pass e pipeline_id build_id attempt n =
     (case get_pipeline_status e pipeline_id build_id n of
        Inl ex \<Rightarrow> Raised ex
      | Inr run_info \<Rightarrow>
          if truthy run_info then
            (case completed_status e run_info of
               Inl ex \<Rightarrow> Raised ex
             | Inr (Some status_msg) \<Rightarrow>
                 (case py_print e [Lit ''Pipeline run '', Val build_id,
                                   Lit '' completed with status: '', Lit status_msg] of
                    Some ex \<Rightarrow> Raised ex
                  | None \<Rightarrow> Completed status_msg)
             | Inr None \<Rightarrow>
                 (case dict_get run_info ''state'' (PStr ''Unknown'') of
                    Inl ex \<Rightarrow> Raised ex
                  | Inr current_status \<Rightarrow>
                      (case py_print e [Lit ''Pipeline run '', Val build_id, Lit '' status: '',
                                        Val current_status, Lit '' (attempt '',
                                        Lit (str_nat (Suc attempt)), Lit ''/'',
                                        Lit (str_nat max_attempts), Lit '')''] of
                         Some ex \<Rightarrow> Raised ex
                       | None \<Rightarrow> StillPending)))
          else
            (case py_print e [Lit ''Unable to get status for run '', Val build_id,
                              Lit '', retrying... (attempt '', Lit (str_nat (Suc attempt)),
                              Lit ''/'', Lit (str_nat max_attempts), Lit '')''] of
               Some ex \<Rightarrow> Raised ex
             | None \<Rightarrow> StillPending))"

definition timeout_update :: update where
  "timeout_update =
     [(''build_status'', PStr ''Timeout - Status check exceeded maximum attempts''),
      (''error'', PStr ''Pipeline status check timed out'')]"

text \<open>
  The \<open>while attempt < max_attempts\<close> loop of \<open>check_pipeline_status\<close> and what follows
  it (lines 330-370). The \<open>except\<close> clause of the loop returns the error update; the
  \<open>print\<close> after the loop is outside every \<open>try\<close>.
\<close>

function poll_status :: "env \<Rightarrow> pyval \<Rightarrow> pyval \<Rightarrow> nat \<Rightarrow> ctr \<Rightarrow> (exn + update) \<times> ctr" where
  "poll_status e pipeline_id build_id attempt c =
     (if attempt < max_attempts then
        (let c1 = c\<lparr>status_checks := Suc (status_checks c)\<rparr> in
         case poll_pass e pipeline_id build_id attempt (status_checks c) of
           Raised ex \<Rightarrow>
             (Inr [(''error'', PStr (''Error checking pipeline status: '' @ str_exn ex))], c1)
         | Completed status_msg \<Rightarrow> (Inr [(''build_status'', PStr status_msg)], c1)
         | StillPending \<Rightarrow> poll_status e pipeline_id build_id (Suc attempt) (sleep c1))
      else
        (case py_print e [Lit ''Pipeline status check timed out after '',
                          Lit (str_nat max_attempts), Lit '' attempts''] of
           Some ex \<Rightarrow> (Inl ex, c)
         | None \<Rightarrow> (Inr timeout_update, c)))"
  by pat_completeness auto
termination
  by (relation "measure (\<lambda>(e, p, b, attempt, c). max_attempts - attempt)") auto

text \<open>
  \<open>check_pipeline_status\<close> (lines 311-370). A node returns \<open>Inr\<close> its update or \<open>Inl\<close>
  the exception it raised. The two \<open>print\<close> calls before the loop (lines 322 and 328)
  are outside every \<open>try\<close>; the second formats both ids.
\<close>

definition check_pipeline_status :: "env \<Rightarrow> state \<Rightarrow> ctr \<Rightarrow> (exn + update) \<times> ctr" where
  "check_pipeline_status e st c =
     (let pipeline_id = state_get st ''pipeline_id'' PNone;
          build_id = state_get st ''build_id'' PNone in
      if \<not> truthy pipeline_id \<or> \<not> truthy build_id then
        (Inr [(''error'', PStr ''No pipeline ID or build ID available'')], c)
      else
        (case py_print e [Lit ''Waiting 3 seconds before first status check...''] of
           Some ex \<Rightarrow> (Inl ex, c)
         | None \<Rightarrow>
             (case py_print e [Lit ''Starting status polling for pipeline '', Val pipeline_id,
                               Lit '', run '', Val build_id, Lit ''...''] of
                Some ex \<Rightarrow> (Inl ex, sleep c)
              | None \<Rightarrow> poll_status e pipeline_id build_id 0 (sleep c))))"

text \<open>
  The \<open>try\<close> block of \<open>trigger_azure_pipeline\<close> (lines 117-123), on the outcome of the
  request.
\<close>

definition trigger_response :: "env \<Rightarrow> http_result \<Rightarrow> string \<Rightarrow> exn + pyval" where
  "trigger_response e r body_text =
     (case r of
        RequestFailed m \<Rightarrow> Inl (RuntimeFailure m)
      | Response code body \<Rightarrow>
          if code = 200 then
            (case body of Inl m \<Rightarrow> Inl (RuntimeFailure m) | Inr j \<Rightarrow> Inr j)
          else
            (case py_print e [Lit ''Error triggering pipeline: '', Lit (str_int code),
                              Lit '' - '', Lit body_text] of
               Some ex \<Rightarrow> Inl ex
             | None \<Rightarrow> Inr PNone))"

text \<open>
  \<open>trigger_azure_pipeline\<close> (lines 91-126), in its \<open>n\<close>-th invocation, with the same
  shape as \<open>get_pipeline_status\<close>: the URL is built from the pipeline id before the
  \<open>try\<close>, and the \<open>except\<close> clause prints the exception and returns \<open>None\<close>.
\<close>

definition trigger_azure_pipeline :: "env \<Rightarrow> int \<Rightarrow> nat \<Rightarrow> exn + pyval" where
  "trigger_azure_pipeline e pipeline_id n =
     (if \<not> azure_devops_token_set e then Inr PNone
      else
        (case fstring e [Lit ''_apis/pipelines/'', Val (PInt pipeline_id),
                         Lit ''/runs?api-version=7.1''] of
           Inl ex \<Rightarrow> Inl ex
         | Inr url \<Rightarrow>
             (case trigger_response e (pipeline_run_post e n) (run_post_text e n) of
                Inr v \<Rightarrow> Inr v
              | Inl ex \<Rightarrow>
                  (case py_print e [Lit ''Exception triggering pipeline: '', Lit (str_exn ex)] of
                     Some ex' \<Rightarrow> Inl ex'
                   | None \<Rightarrow> Inr PNone))))"

text \<open>
  The \<open>for i, part in enumerate(parts)\<close> loop of \<open>trigger_pipeline\<close> (lines 281-284):
  the part after the first \<open>"runs"\<close> that has a successor.
\<close>

fun after_runs :: "string list \<Rightarrow> string option" where
  "after_runs [] = None"
| "after_runs (part # rest) =
     (if part = ''runs'' \<and> rest \<noteq> [] then Some (hd rest) else after_runs rest)"

text \<open>Lines 274-284: the build id of a trigger response, or the falsy value found.\<close>

definition extract_build_id :: "pyval \<Rightarrow> exn + pyval" where
  "extract_build_id result =
     bind_exn (dict_get result ''id'' PNone) (\<lambda>build_id.
       if truthy build_id then Inr build_id
       else
         bind_exn (dict_get result ''_links'' (PDict [])) (\<lambda>links.
         bind_exn (dict_get links ''self'' (PDict [])) (\<lambda>self.
         bind_exn (dict_get self ''href'' (PStr [])) (\<lambda>href.
           if truthy href then
             (case href of
                PStr h \<Rightarrow>
                  Inr (case after_runs (split_on (CHR ''/'') h) of
                         None \<Rightarrow> build_id
                       | Some part \<Rightarrow> PStr part)
              | v \<Rightarrow> Inl (AttributeError (type_name v) ''split''))
           else Inr build_id))))"

text \<open>
  Line 289: \<open>int(build_id) if isinstance(build_id, (str, int)) else pipeline_id\<close>; a
  bool is an int.
\<close>

fun build_id_int :: "env \<Rightarrow> pyval \<Rightarrow> int \<Rightarrow> exn + int" where
  "build_id_int e (PStr s) pipeline_id =
     (case int_of_str e s of Inl m \<Rightarrow> Inl (ValueError m) | Inr i \<Rightarrow> Inr i)"
| "build_id_int e (PInt i) pipeline_id = Inr i"
| "build_id_int e (PBool b) pipeline_id = Inr (if b then 1 else 0)"
| "build_id_int e v pipeline_id = Inr pipeline_id"

text \<open>
  Lines 272-300 of \<open>trigger_pipeline\<close>: what the node makes of the value that
  \<open>trigger_azure_pipeline\<close> returned.
\<close>

definition after_trigger :: "env \<Rightarrow> int \<Rightarrow> pyval \<Rightarrow> exn + update" where
  "after_trigger e pipeline_id result =
     (if truthy result then
        bind_exn (extract_build_id result) (\<lambda>build_id.
          if truthy build_id then
            bind_exn (build_id_int e build_id pipeline_id) (\<lambda>b.
              Inr [(''pipeline_id'', PInt pipeline_id),
                   (''build_id'', PInt b),
                   (''build_status'', PStr ''InProgress'')])
          else
            Inr [(''error'', PStr ''Failed to extract build ID from pipeline trigger response''),
                 (''pipeline_id'', PInt pipeline_id)])
      else
        Inr [(''error'',
              PStr ''Failed to trigger Azure DevOps pipeline - check logs for details'')])"

text \<open>The body of the \<open>try\<close> of \<open>trigger_pipeline\<close> (lines 264-300).\<close>

definition trigger_pipeline_body :: "env \<Rightarrow> ctr \<Rightarrow> (exn + update) \<times> ctr" where
  "trigger_pipeline_body e c =
     (case azure_devops_pipeline_id e of
        None \<Rightarrow> (Inr [(''error'', PStr ''Azure DevOps pipeline ID not configured'')], c)
      | Some idtext \<Rightarrow>
          if idtext = [] then
            (Inr [(''error'', PStr ''Azure DevOps pipeline ID not configured'')], c)
          else
            (case int_of_str e idtext of
               Inl m \<Rightarrow> (Inl (ValueError m), c)
             | Inr pipeline_id \<Rightarrow>
                 (bind_exn (trigger_azure_pipeline e pipeline_id (trigger_calls c))
                    (after_trigger e pipeline_id),
                  c\<lparr>trigger_calls := Suc (trigger_calls c)\<rparr>)))"

text \<open>
  The two \<open>except\<close> clauses of \<open>trigger_pipeline\<close> (lines 301-308). The exceptions of
  \<open>print\<close> and of the conversion of an int to text are \<open>ValueError\<close>s when the
  environment says so, and then take the first clause.
\<close>

fun trigger_pipeline_handler :: "exn \<Rightarrow> update" where
  "trigger_pipeline_handler (ValueError m) =
     [(''error'', PStr (''Invalid pipeline ID format: '' @ m))]"
| "trigger_pipeline_handler ex =
     [(''error'', PStr (''Error triggering pipeline: '' @ str_exn ex))]"

text \<open>\<open>trigger_pipeline\<close> (lines 261-308).\<close>

definition trigger_pipeline :: "env \<Rightarrow> state \<Rightarrow> ctr \<Rightarrow> (exn + update) \<times> ctr" where
  "trigger_pipeline e st c =
     (case trigger_pipeline_body e c of
        (Inl ex, c1) \<Rightarrow> (Inr (trigger_pipeline_handler ex), c1)
      | (Inr u, c1) \<Rightarrow> (Inr u, c1))"

section \<open>Slack helpers and the approval nodes\<close>

text \<open>
  The loop of \<open>get_slack_channel_id\<close> (lines 65-67). The comparisons are with the
  channel name the caller passed, a str by the declaration of \<open>State\<close>; on a str,
  Python's \<open>==\<close> is equality of values.
\<close>

fun find_channel :: "pyval list \<Rightarrow> pyval \<Rightarrow> exn + pyval" where
  "find_channel [] channel_name = Inr PNone"
| "find_channel (channel # rest) channel_name =
     (case dict_get channel ''name'' PNone of
        Inl ex \<Rightarrow> Inl ex
      | Inr nm \<Rightarrow>
          if nm = channel_name then dict_get channel ''id'' PNone
          else
            (case dict_get channel ''id'' PNone of
               Inl ex \<Rightarrow> Inl ex
             | Inr i \<Rightarrow>
                 if i = channel_name then dict_get channel ''id'' PNone
                 else find_channel rest channel_name))"

text \<open>
  \<open>get_slack_channel_id\<close> (lines 50-68), in its \<open>n\<close>-th invocation. It has no handler:
  an exception of the request, of \<open>json()\<close> or of a \<open>get\<close> on a body that is not an
  object propagates.
\<close>

definition get_slack_channel_id :: "env \<Rightarrow> pyval \<Rightarrow> nat \<Rightarrow> exn + pyval" where
  "get_slack_channel_id e channel_name n =
     (case conversations_list e n of
        RequestFailed m \<Rightarrow> Inl (RuntimeFailure m)
      | Response code body \<Rightarrow>
          if code = 200 then
            (case body of
               Inl m \<Rightarrow> Inl (RuntimeFailure m)
             | Inr data \<Rightarrow>
                 bind_exn (dict_get data ''ok'' PNone) (\<lambda>ok.
                   if truthy ok then
                     bind_exn (dict_get data ''channels'' (PList [])) (\<lambda>channels.
                     bind_exn (py_iter channels) (\<lambda>chs. find_channel chs channel_name))
                   else Inr PNone))
          else Inr PNone)"

text \<open>\<open>get_slack_messages\<close> (lines 71-87), in its \<open>n\<close>-th invocation; no handler either.\<close>

definition get_slack_messages :: "env \<Rightarrow> pyval \<Rightarrow> nat \<Rightarrow> exn + pyval" where
  "get_slack_messages e channel_id n =
     (case conversations_history e n of
        RequestFailed m \<Rightarrow> Inl (RuntimeFailure m)
      | Response code body \<Rightarrow>
          if code = 200 then
            (case body of
               Inl m \<Rightarrow> Inl (RuntimeFailure m)
             | Inr data \<Rightarrow>
                 bind_exn (dict_get data ''ok'' PNone) (\<lambda>ok.
                   if truthy ok then dict_get data ''messages'' (PList [])
                   else Inr (PList [])))
          else Inr (PList []))"

text \<open>\<open>consult_slack_messages\<close> (lines 158-179); \<open>state["channel"]\<close> is outside the \<open>try\<close>.\<close>

definition consult_slack_messages :: "env \<Rightarrow> state \<Rightarrow> ctr \<Rightarrow> (exn + update) \<times> ctr" where
  "consult_slack_messages e st c =
     (case state_item st ''channel'' of
        Inl ex \<Rightarrow> (Inl ex, c)
      | Inr channel \<Rightarrow>
          (let c1 = c\<lparr>list_calls := Suc (list_calls c)\<rparr> in
           case get_slack_channel_id e channel (list_calls c) of
             Inl ex \<Rightarrow>
               (Inr [(''error'', PStr (''Error fetching Slack messages: '' @ str_exn ex))], c1)
           | Inr channel_id \<Rightarrow>
               if \<not> truthy channel_id then
                 (case py_str e channel of
                    Inl ex \<Rightarrow>
                      (Inr [(''error'',
                             PStr (''Error fetching Slack messages: '' @ str_exn ex))], c1)
                  | Inr name \<Rightarrow>
                      (Inr [(''error'',
                             PStr (''Channel '' @ quoted name @
                                   '' not found or not accessible''))], c1))
               else
                 (let c2 = c1\<lparr>history_calls := Suc (history_calls c1)\<rparr> in
                  case get_slack_messages e channel_id (history_calls c1) of
                    Inl ex \<Rightarrow>
                      (Inr [(''error'',
                             PStr (''Error fetching Slack messages: '' @ str_exn ex))], c2)
                  | Inr messages \<Rightarrow> (Inr [(''slack_messages'', messages)], c2))))"

text \<open>
  The body of the \<open>try\<close> inside the loop of \<open>check_albert_message\<close> (lines 192-209), on
  the outcome of the \<open>users.info\<close> request: whether the author is Albert H.
\<close>

definition user_is_albert :: "http_result \<Rightarrow> exn + bool" where
  "user_is_albert r =
     (case r of
        RequestFailed m \<Rightarrow> Inl (RuntimeFailure m)
      | Response code body \<Rightarrow>
          if code = 200 then
            (case body of
               Inl m \<Rightarrow> Inl (RuntimeFailure m)
             | Inr user_data \<Rightarrow>
                 bind_exn (dict_get user_data ''ok'' PNone) (\<lambda>ok.
                   if truthy ok then
                     bind_exn (dict_get user_data ''user'' (PDict [])) (\<lambda>u.
                     bind_exn (dict_get u ''real_name'' (PStr [])) (\<lambda>user_name.
                     bind_exn (dict_get u ''profile'' (PDict [])) (\<lambda>profile.
                     bind_exn (dict_get profile ''display_name'' (PStr [])) (\<lambda>display_name.
                     bind_exn (py_in ''Albert H.'' user_name) (\<lambda>in_name.
                       if in_name then Inr True
                       else py_in ''Albert H.'' display_name)))))
                   else Inr False))
          else Inr False)"

text \<open>
  The \<open>for message in messages\<close> loop (lines 188-213): the text of the first message
  whose author is Albert H., \<open>None\<close> when there is none. The bare \<open>except: pass\<close> turns
  every exception of the lookup into "not this message"; \<open>message.get("user", "")\<close> is
  outside the \<open>try\<close>.
\<close>

fun find_albert :: "env \<Rightarrow> pyval list \<Rightarrow> ctr \<Rightarrow> (exn + pyval) \<times> ctr" where
  "find_albert e [] c = (Inr PNone, c)"
| "find_albert e (message # rest) c =
     (case dict_get message ''user'' (PStr []) of
        Inl ex \<Rightarrow> (Inl ex, c)
      | Inr user_id \<Rightarrow>
          (let c1 = c\<lparr>users_calls := Suc (users_calls c)\<rparr> in
           case user_is_albert (users_info e (users_calls c)) of
             Inl ex \<Rightarrow> find_albert e rest c1
           | Inr found \<Rightarrow>
               if found then
                 (case dict_get message ''text'' (PStr []) of
                    Inl ex \<Rightarrow> find_albert e rest c1
                  | Inr txt \<Rightarrow> (Inr txt, c1))
               else find_albert e rest c1))"

definition not_found_update :: update where
  "not_found_update =
     [(''albert_message'', PStr []),
      (''llm_approval'', PStr ''Rejected''),
      (''error'', PStr ''No message from Albert H. found in channel'')]"

text \<open>\<open>check_albert_message\<close> (lines 182-250).\<close>

definition check_albert_message :: "env \<Rightarrow> state \<Rightarrow> ctr \<Rightarrow> (exn + update) \<times> ctr" where
  "check_albert_message e st c =
     (case py_iter (state_get st ''slack_messages'' (PList [])) of
        Inl ex \<Rightarrow> (Inl ex, c)
      | Inr messages \<Rightarrow>
          (case find_albert e messages c of
             (Inl ex, c1) \<Rightarrow> (Inl ex, c1)
           | (Inr albert_message, c1) \<Rightarrow>
               if \<not> truthy albert_message then (Inr not_found_update, c1)
               else
                 (let c2 = c1\<lparr>llm_calls := Suc (llm_calls c1)\<rparr> in
                  case bind_exn (llm_invoke e (llm_calls c1)) strip_val of
                    Inl ex \<Rightarrow>
                      (Inr [(''albert_message'', albert_message),
                            (''llm_approval'', PStr ''Rejected''),
                            (''error'',
                             PStr (''Error evaluating message with LLM: '' @ str_exn ex))], c2)
                  | Inr approval \<Rightarrow>
                      (Inr [(''albert_message'', albert_message),
                            (''llm_approval'',
                             PStr (if str_contains ''Approved'' approval then ''Approved''
                                   else ''Rejected''))], c2))))"

text \<open>The gate \<open>validate_approval\<close> (lines 253-258).\<close>

definition validate_approval :: "state \<Rightarrow> string" where
  "validate_approval st =
     (if state_get st ''llm_approval'' (PStr []) = PStr ''Approved'' then ''Approved''
      else ''Rejected'')"

section \<open>The joke workflow (\<^verbatim>\<open>re_agent.py\<close>)\<close>

text \<open>
  Each node reads one field with \<open>state[...]\<close> and calls the language model; none has a
  handler.
\<close>

definition llm_node :: "string \<Rightarrow> string \<Rightarrow> env \<Rightarrow> state \<Rightarrow> ctr \<Rightarrow> (exn + update) \<times> ctr" where
  "llm_node reads writes e st c =
     (case state_item st reads of
        Inl ex \<Rightarrow> (Inl ex, c)
      | Inr v \<Rightarrow>
          (let c1 = c\<lparr>llm_calls := Suc (llm_calls c)\<rparr> in
           case llm_invoke e (llm_calls c) of
             Inl ex \<Rightarrow> (Inl ex, c1)
           | Inr content \<Rightarrow> (Inr [(writes, content)], c1)))"

definition generate_joke :: "env \<Rightarrow> state \<Rightarrow> ctr \<Rightarrow> (exn + update) \<times> ctr" where
  "generate_joke = llm_node ''topic'' ''joke''"

definition improve_joke :: "env \<Rightarrow> state \<Rightarrow> ctr \<Rightarrow> (exn + update) \<times> ctr" where
  "improve_joke = llm_node ''joke'' ''improved_joke''"

definition ask_for_applause :: "env \<Rightarrow> state \<Rightarrow> ctr \<Rightarrow> (exn + update) \<times> ctr" where
  "ask_for_applause = llm_node ''joke'' ''ask_for_applause''"

definition polish_joke :: "env \<Rightarrow> state \<Rightarrow> ctr \<Rightarrow> (exn + update) \<times> ctr" where
  "polish_joke = llm_node ''improved_joke'' ''final_joke''"


section \<open>The graph engine\<close>

datatype target = Node string | End

type_synonym node_fn = "state \<Rightarrow> ctr \<Rightarrow> (exn + update) \<times> ctr"

type_synonym gate_fn = "state \<Rightarrow> exn + string"

text \<open>
  A graph as the builder calls of the source give it: \<open>add_node\<close>, \<open>add_edge(START, _)\<close>,
  \<open>add_edge\<close> and \<open>add_conditional_edges\<close>.
\<close>

record graph =
  nodes :: "(string \<times> node_fn) list"
  entry :: target
  edges :: "(string \<times> target) list"
  conditional_edges :: "(string \<times> gate_fn \<times> (string \<times> target) list) list"

datatype fault = MissingEdge string | UnmappedLabel string string | UnknownNode string | StepLimit

datatype outcome = Finished | Faulted fault | NodeRaised string exn | GateRaised string exn

text \<open>
  Modelled from the spec: the merge of a node's partial update into the StateRecord
  (section 4.1, "merge by overwrite"; section 3, last-writer-wins, no field removed). The
  engine is the \<open>langgraph\<close> library, which is not among the sources.
\<close>

definition merge :: "state \<Rightarrow> update \<Rightarrow> state" where
  "merge s u = fold (\<lambda>kv m. m(fst kv \<mapsto> snd kv)) u s"

text \<open>
  Modelled from the spec: the choice of the next node (section 4.1): the target of the
  unconditional edge, or the target the conditional mapping gives for the label the gate
  returns on the merged state; \<open>MissingEdge\<close> and \<open>UnmappedLabel\<close> are structural faults.
  An exception of a gate ends the run, as one of a node does.
\<close>

definition next_target :: "graph \<Rightarrow> string \<Rightarrow> state \<Rightarrow> outcome + target" where
  "next_target g n s =
     (case map_of (edges g) n of
        Some t \<Rightarrow> Inr t
      | None \<Rightarrow>
          (case map_of (conditional_edges g) n of
             None \<Rightarrow> Inl (Faulted (MissingEdge n))
           | Some (gate, mapping) \<Rightarrow>
               (case gate s of
                  Inl ex \<Rightarrow> Inl (GateRaised n ex)
                | Inr label \<Rightarrow>
                    (case map_of mapping label of
                       None \<Rightarrow> Inl (Faulted (UnmappedLabel n label))
                     | Some t \<Rightarrow> Inr t))))"

text \<open>
  Modelled from the spec: the Engine's walk (section 4.1) from a target, with a bound
  on the node executions left. The trace lists every invocation of a work function, in
  order, with what it returned or raised; a run result is the outcome, the StateRecord,
  the counters and the trace.
\<close>

type_synonym trace = "(string \<times> (exn + update)) list"

fun run_from :: "graph \<Rightarrow> nat \<Rightarrow> target \<Rightarrow> state \<Rightarrow> ctr \<Rightarrow> trace \<Rightarrow> outcome \<times> state \<times> ctr \<times> trace" where
  "run_from g steps End s c tr = (Finished, s, c, tr)"
| "run_from g 0 (Node n) s c tr = (Faulted StepLimit, s, c, tr)"
| "run_from g (Suc steps) (Node n) s c tr =
     (case map_of (nodes g) n of
        None \<Rightarrow> (Faulted (UnknownNode n), s, c, tr)
      | Some work \<Rightarrow>
          (case work s c of
             (Inl ex, c1) \<Rightarrow> (NodeRaised n ex, s, c1, tr @ [(n, Inl ex)])
           | (Inr u, c1) \<Rightarrow>
               (case next_target g n (merge s u) of
                  Inl stop \<Rightarrow> (stop, merge s u, c1, tr @ [(n, Inr u)])
                | Inr t \<Rightarrow> run_from g steps t (merge s u) c1 (tr @ [(n, Inr u)]))))"

text \<open>
  Modelled from the spec: \<open>run(graph, initialState)\<close> (section 4.1), with the step cap
  as a parameter.
\<close>

definition run :: "graph \<Rightarrow> nat \<Rightarrow> state \<Rightarrow> ctr \<Rightarrow> outcome \<times> state \<times> ctr \<times> trace" where
  "run g cap s c = run_from g cap (entry g) s c []"

text \<open>How often a node's work function was invoked in a run.\<close>

definition invocations :: "string \<Rightarrow> trace \<Rightarrow> nat" where
  "invocations n tr = length (filter (\<lambda>entry. fst entry = n) tr)"

section \<open>The two workflows\<close>

text \<open>The graph built in \<^verbatim>\<open>re_agent_v2.py\<close>, lines 374-394.\<close>

definition approval_workflow :: "env \<Rightarrow> graph" where
  "approval_workflow e =
     \<lparr>nodes = [(''consult_slack_messages'', consult_slack_messages e),
               (''check_albert_message'', check_albert_message e),
               (''trigger_pipeline'', trigger_pipeline e),
               (''check_pipeline_status'', check_pipeline_status e)],
      entry = Node ''consult_slack_messages'',
      edges = [(''consult_slack_messages'', Node ''check_albert_message''),
               (''trigger_pipeline'', Node ''check_pipeline_status''),
               (''check_pipeline_status'', End)],
      conditional_edges =
        [(''check_albert_message'', (\<lambda>s. Inr (validate_approval s)),
          [(''Approved'', Node ''trigger_pipeline''), (''Rejected'', End)])]\<rparr>"


section \<open>Example environments\<close>

text \<open>
  Concrete environments and states on which the theorems below are instantiated. In
  \<open>pending_env\<close> every collaborator but the status endpoint is down, the status
  endpoint always reports a run in progress, and standard output takes every text. No
  example formats a list or a dict, or changes the case of a text with cased letters
  outside ASCII.
\<close>

definition pending_env :: env where
  "pending_env =
     \<lparr>azure_devops_pat = Some ''pat'', azure_devops_pipeline_id = Some ''7'',
      conversations_list = (\<lambda>n. RequestFailed ''down''),
      conversations_history = (\<lambda>n. RequestFailed ''down''),
      users_info = (\<lambda>n. RequestFailed ''down''),
      pipeline_run_post = (\<lambda>n. RequestFailed ''down''),
      pipeline_run_get = (\<lambda>n. Response 200 (Inr (PDict [(''state'', PStr ''inProgress'')]))),
      run_post_text = (\<lambda>n. []),
      run_get_text = (\<lambda>n. []),
      llm_invoke = (\<lambda>n. Inl (RuntimeFailure ''down'')),
      stdout_write = (\<lambda>text. None),
      int_of_str = (\<lambda>s. if s = ''7'' then Inr 7 else Inl ''invalid literal''),
      int_max_str_digits = Some 4300,
      builtin_str = (\<lambda>v. Inl (ValueError ''no text'')),
      unicode_lower = (\<lambda>s. s),
      unicode_capitalize = (\<lambda>s. s)\<rparr>"

text \<open>
  The first status request fails in the transport, the second reports a run in
  progress, every later one a completed run.
\<close>

definition third_try_env :: env where
  "third_try_env =
     pending_env\<lparr>pipeline_run_get := (\<lambda>n.
        if n = 0 then RequestFailed ''connection reset''
        else if n = 1 then Response 200 (Inr (PDict [(''state'', PStr ''inProgress'')]))
        else Response 200
               (Inr (PDict [(''state'', PStr ''Completed''), (''result'', PStr ''succeeded'')])))\<rparr>"

definition built_state :: state where
  "built_state =
     [''channel'' \<mapsto> PStr ''general'', ''pipeline_id'' \<mapsto> PInt 7, ''build_id'' \<mapsto> PInt 42]"

text \<open>
  Slack's channel list answers 404, the author lookup names Albert H., the language
  model approves, and no pipeline id is configured.
\<close>

definition approving_env :: env where
  "approving_env =
     pending_env\<lparr>azure_devops_pipeline_id := None,
       conversations_list := (\<lambda>n. Response 404 (Inl ''not JSON'')),
       users_info := (\<lambda>n. Response 200
          (Inr (PDict [(''ok'', PBool True),
                       (''user'', PDict [(''real_name'', PStr ''Albert H.'')])]))),
       llm_invoke := (\<lambda>n. Inr (PStr ''Approved''))\<rparr>"

text \<open>An initial StateRecord that already carries \<open>slack_messages\<close>.\<close>

definition seeded_state :: state where
  "seeded_state =
     [''channel'' \<mapsto> PStr ''general'',
      ''slack_messages'' \<mapsto> PList [PDict [(''user'', PStr ''U1''), (''text'', PStr ''Ship it'')]]]"

text \<open>A language model that answers the four calls of the joke workflow in turn.\<close>

definition joke_env :: env where
  "joke_env =
     pending_env\<lparr>llm_invoke := (\<lambda>n.
        if n = 0 then Inr (PStr ''Cats are great'')
        else if n = 1 then Inr (PStr ''Cats are grreat! (wordplay)'')
        else if n = 2 then Inr (PStr ''Cats are grreat! And so are dogs.'')
        else Inr (PStr ''A round of applause, please''))\<rparr>"



text \<open>
  Slack lists the channel \<open>general\<close> with id \<open>C1\<close> and answers the history request
  with \<open>ok: false\<close>.
\<close>

definition not_in_channel_env :: env where
  "not_in_channel_env =
     pending_env\<lparr>
       conversations_list := (\<lambda>n. Response 200
          (Inr (PDict [(''ok'', PBool True),
                       (''channels'', PList [PDict [(''name'', PStr ''general''),
                                                  (''id'', PStr ''C1'')]])]))),
       conversations_history := (\<lambda>n. Response 200
          (Inr (PDict [(''ok'', PBool False), (''error'', PStr ''not_in_channel'')])))\<rparr>"

text \<open>The same, with a history request that fails in the transport.\<close>

definition history_down_env :: env where
  "history_down_env =
     not_in_channel_env\<lparr>conversations_history := (\<lambda>n. RequestFailed ''connection reset'')\<rparr>"

text \<open>
  The UTF-8 text of a status in Chinese characters ("in progress"); it has no cased
  letters, so \<open>lower\<close> leaves it as it is.
\<close>

definition in_progress_zh :: string where
  "in_progress_zh =
     [CHR 0xE8, CHR 0xBF, CHR 0x9B, CHR 0xE8, CHR 0xA1, CHR 0x8C, CHR 0xE4, CHR 0xB8, CHR 0xAD]"

text \<open>
  A standard output with the ASCII encoding: \<open>print\<close> raises \<open>UnicodeEncodeError\<close>, a
  \<open>ValueError\<close>, on any other text. The message is the one for the progress line of the
  first attempt on run 42.
\<close>

definition ascii_stdout :: "string \<Rightarrow> exn option" where
  "ascii_stdout text =
     (if list_all is_ascii text then None
      else Some (ValueError (quoted ''ascii'' @
             '' codec can'' @ [CHR 0x27] @
             ''t encode characters in position 24-26: ordinal not in range(128)'')))"

text \<open>The status endpoint always reports the Chinese status; standard output is ASCII.\<close>

definition unprintable_env :: env where
  "unprintable_env =
     pending_env\<lparr>
       pipeline_run_get := (\<lambda>n. Response 200 (Inr (PDict [(''state'', PStr in_progress_zh)]))),
       stdout_write := ascii_stdout\<rparr>"


text \<open>An int of 4301 digits, and a state that has it as build id.\<close>

definition long_id :: int where
  "long_id = 10 ^ 4300"

definition long_id_state :: state where
  "long_id_state =
     [''channel'' \<mapsto> PStr ''general'', ''pipeline_id'' \<mapsto> PInt 7,
      ''build_id'' \<mapsto> PInt long_id]"

section \<open>Notions used to state the properties\<close>

text \<open>The updates that the invocations of a trace returned, in order.\<close>

definition updates :: "trace \<Rightarrow> update list" where
  "updates tr = concat (map (\<lambda>entry. case snd entry of Inl ex \<Rightarrow> [] | Inr u \<Rightarrow> [u]) tr)"

text \<open>
  The StateRecord after the invocations of a trace, started from \<open>s\<close>: each returned
  update merged in turn.
\<close>

definition state_after :: "state \<Rightarrow> trace \<Rightarrow> state" where
  "state_after s tr = fold (\<lambda>u m. merge m u) (updates tr) s"

text \<open>The value an update writes to a field, \<open>None\<close> when it does not write it.\<close>

definition written :: "update \<Rightarrow> string \<Rightarrow> pyval option" where
  "written u = merge Map.empty u"


text \<open>A message record: a dict.\<close>

definition is_record :: "pyval \<Rightarrow> bool" where
  "is_record v = (case v of PDict kvs \<Rightarrow> True | _ \<Rightarrow> False)"

text \<open>
  A retrieval failure that \<open>get_slack_messages\<close> answers with the empty list: a status
  other than 200, or a decoded object whose \<open>ok\<close> flag is not true.
\<close>

definition quiet_failure :: "http_result \<Rightarrow> bool" where
  "quiet_failure r =
     (case r of
        RequestFailed m \<Rightarrow> False
      | Response code body \<Rightarrow>
          code \<noteq> 200 \<or>
          (case body of
             Inl m \<Rightarrow> False
           | Inr data \<Rightarrow>
               (case dict_get data ''ok'' PNone of
                  Inl ex \<Rightarrow> False
                | Inr ok \<Rightarrow> \<not> truthy ok)))"

text \<open>The answer of Slack for a channel without messages.\<close>

definition empty_channel :: http_result where
  "empty_channel = Response 200 (Inr (PDict [(''ok'', PBool True), (''messages'', PList [])]))"

text \<open>
  A transient I/O failure of the status request: it raised, answered with a status other
  than 200, or its body is not JSON.
\<close>

definition io_failure :: "http_result \<Rightarrow> bool" where
  "io_failure r =
     (case r of
        RequestFailed m \<Rightarrow> True
      | Response code body \<Rightarrow>
          code \<noteq> 200 \<or> (case body of Inl m \<Rightarrow> True | Inr j \<Rightarrow> False))"

text \<open>
  A field that is absent or holds a str, as the \<open>State\<close> type of \<^verbatim>\<open>re_agent.py\<close> gives
  it: the f-string that builds the prompt of a joke node cannot raise on it.
\<close>

definition str_or_absent :: "state \<Rightarrow> string \<Rightarrow> bool" where
  "str_or_absent st k = (case st k of None \<Rightarrow> True | Some (PStr t) \<Rightarrow> True | Some v \<Rightarrow> False)"

text \<open>Standard output takes every text.\<close>

definition stdout_ok :: "env \<Rightarrow> bool" where
  "stdout_ok e = (\<forall>text. stdout_write e text = None)"

text \<open>A value that has a text: an f-string can format it.\<close>

definition formats :: "env \<Rightarrow> pyval \<Rightarrow> bool" where
  "formats e v = (case py_str e v of Inl ex \<Rightarrow> False | Inr text \<Rightarrow> True)"

text \<open>
  The \<open>n\<close>-th status check reports a pending outcome: \<open>get_pipeline_status\<close> returns
  no run information, or a run that is not completed.
\<close>

definition reports_pending :: "env \<Rightarrow> pyval \<Rightarrow> pyval \<Rightarrow> nat \<Rightarrow> bool" where
  "reports_pending e pipeline_id build_id n =
     (case get_pipeline_status e pipeline_id build_id n of
        Inl ex \<Rightarrow> False
      | Inr run_info \<Rightarrow> \<not> truthy run_info \<or> completed_status e run_info = Inr None)"


section \<open>Properties\<close>

declare poll_status.simps [simp del]

subsection \<open>The polling loop\<close>

lemma max_attempts_value: "max_attempts = 100"
  by (simp add: max_attempts_def)

declare str_nat.simps [simp del]

lemma py_print_written:
  "stdout_ok e \<Longrightarrow> fstring e ps = Inr text \<Longrightarrow> py_print e ps = None"
  by (simp add: py_print_def stdout_ok_def)

lemma py_str_PStr: "py_str e (PStr s) = Inr s"
  by (simp add: py_str_def)

lemma formats_text: "formats e v \<Longrightarrow> \<exists>text. py_str e v = Inr text"
  by (cases "py_str e v") (simp_all add: formats_def)

lemma completed_status_state:
  assumes "completed_status e run_info = Inr x"
  shows "\<exists>s. dict_get run_info ''state'' (PStr ''Unknown'') = Inr (PStr s)"
proof -
  obtain kvs where d: "run_info = PDict kvs"
    using assms by (cases run_info) (simp_all add: completed_status_def bind_exn_def)
  show ?thesis
  proof (cases "map_of kvs ''state''")
    case None
    then show ?thesis by (simp add: d)
  next
    case (Some st)
    with assms d have "\<exists>l. lower_val e st = Inr l"
      by (cases "lower_val e st") (simp_all add: completed_status_def bind_exn_def)
    then obtain s where "st = PStr s" by (cases st) auto
    with Some show ?thesis by (simp add: d)
  qed
qed

lemma poll_pass_pending:
  assumes "reports_pending e pid bid n" and "stdout_ok e" and "formats e bid"
  shows "poll_pass e pid bid a n = StillPending"
proof -
  obtain b where b: "py_str e bid = Inr b" using formats_text[OF assms(3)] by blast
  obtain ri where g: "get_pipeline_status e pid bid n = Inr ri"
    and p: "\<not> truthy ri \<or> completed_status e ri = Inr None"
    using assms(1) by (cases "get_pipeline_status e pid bid n") (simp_all add: reports_pending_def)
  show ?thesis
  proof (cases "truthy ri")
    case False
    have "py_print e [Lit ''Unable to get status for run '', Val bid,
                Lit '', retrying... (attempt '', Lit (str_nat (Suc a)),
                Lit ''/'', Lit (str_nat max_attempts), Lit '')''] = None"
      by (rule py_print_written[OF assms(2)]) (simp add: b)
    with False g show ?thesis by (simp add: poll_pass_def)
  next
    case True
    with p have cs: "completed_status e ri = Inr None" by simp
    from completed_status_state[OF cs] obtain s
      where st: "dict_get ri ''state'' (PStr ''Unknown'') = Inr (PStr s)" by blast
    have "py_print e [Lit ''Pipeline run '', Val bid, Lit '' status: '',
                Val (PStr s), Lit '' (attempt '', Lit (str_nat (Suc a)), Lit ''/'',
                Lit (str_nat max_attempts), Lit '')''] = None"
      by (rule py_print_written[OF assms(2)]) (simp add: b py_str_PStr)
    with True g cs st show ?thesis by (simp add: poll_pass_def)
  qed
qed


lemma poll_status_step_pending:
  "a < max_attempts \<Longrightarrow> poll_pass e p b a (status_checks c) = StillPending \<Longrightarrow>
   poll_status e p b a c =
     poll_status e p b (Suc a) (sleep (c\<lparr>status_checks := Suc (status_checks c)\<rparr>))"
  by (subst poll_status.simps) simp

lemma poll_status_step_completed:
  "a < max_attempts \<Longrightarrow> poll_pass e p b a (status_checks c) = Completed msg \<Longrightarrow>
   poll_status e p b a c =
     (Inr [(''build_status'', PStr msg)], c\<lparr>status_checks := Suc (status_checks c)\<rparr>)"
  by (subst poll_status.simps) simp

lemma poll_status_step_raised:
  "a < max_attempts \<Longrightarrow> poll_pass e p b a (status_checks c) = Raised ex \<Longrightarrow>
   poll_status e p b a c =
     (Inr [(''error'', PStr (''Error checking pipeline status: '' @ str_exn ex))],
      c\<lparr>status_checks := Suc (status_checks c)\<rparr>)"
  by (subst poll_status.simps) simp

lemma poll_status_exhausted:
  "\<not> a < max_attempts \<Longrightarrow> stdout_ok e \<Longrightarrow> poll_status e p b a c = (Inr timeout_update, c)"
  by (subst poll_status.simps) (simp add: py_print_written)

lemma poll_status_pending_from:
  assumes "\<forall>n. reports_pending e p b n" and "stdout_ok e" and "formats e b"
  shows "poll_status e p b a c =
     (Inr timeout_update, c\<lparr>status_checks := status_checks c + (max_attempts - a),
                            sleeps := sleeps c + (max_attempts - a)\<rparr>)"
proof (induction "max_attempts - a" arbitrary: a c)
  case 0
  then show ?case using assms(2) by (simp add: poll_status_exhausted)
next
  case (Suc d)
  then have lt: "a < max_attempts" and d: "d = max_attempts - Suc a" by arith+
  have "poll_pass e p b a (status_checks c) = StillPending"
    using assms by (intro poll_pass_pending) simp_all
  with lt have "poll_status e p b a c =
        poll_status e p b (Suc a) (sleep (c\<lparr>status_checks := Suc (status_checks c)\<rparr>))"
    by (rule poll_status_step_pending)
  also have "\<dots> = (Inr timeout_update, c\<lparr>status_checks := status_checks c + (max_attempts - a),
                        sleeps := sleeps c + (max_attempts - a)\<rparr>)"
    using Suc.hyps(1)[OF d] lt by (simp add: sleep_def Suc_diff_Suc)
  finally show ?case .
qed


lemma check_pipeline_status_polls:
  assumes "state_get st ''pipeline_id'' PNone = pid" and "state_get st ''build_id'' PNone = bid"
    and "truthy pid" and "truthy bid" and "stdout_ok e" and "formats e pid" and "formats e bid"
  shows "check_pipeline_status e st c = poll_status e pid bid 0 (sleep c)"
proof -
  obtain p b where pb: "py_str e pid = Inr p" "py_str e bid = Inr b"
    using formats_text assms(6,7) by blast
  have 1: "py_print e [Lit ''Waiting 3 seconds before first status check...''] = None"
    by (rule py_print_written[OF assms(5)]) simp
  have 2: "py_print e [Lit ''Starting status polling for pipeline '', Val pid,
                               Lit '', run '', Val bid, Lit ''...''] = None"
    by (rule py_print_written[OF assms(5)]) (simp add: pb)
  show ?thesis using assms(1-4) 1 2 by (simp add: check_pipeline_status_def)
qed

lemma str_nat_small: "n < 10 \<Longrightarrow> str_nat n = [digit_char n]"
  by (subst str_nat.simps) simp

lemma str_nat_step: "10 \<le> n \<Longrightarrow> str_nat n = str_nat (n div 10) @ [digit_char (n mod 10)]"
  by (subst str_nat.simps) simp

lemma pending_env_stdout_ok: "stdout_ok pending_env"
  by (simp add: stdout_ok_def pending_env_def)

lemma pending_env_str_7: "py_str pending_env (PInt 7) = Inr ''7''"
  by (simp add: py_str_def pending_env_def str_int_def str_nat_small digit_char_def)

lemma pending_env_str_42: "py_str pending_env (PInt 42) = Inr ''42''"
  by (simp add: py_str_def pending_env_def str_int_def str_nat_small str_nat_step digit_char_def)

lemma pending_env_run_info:
  "get_pipeline_status pending_env (PInt 7) (PInt 42) n =
     Inr (PDict [(''state'', PStr ''inProgress'')])"
  by (simp add: get_pipeline_status_def azure_devops_token_set_def
      pending_env_str_7 pending_env_str_42 status_response_def)
    (simp add: pending_env_def)

lemma pending_env_pending: "reports_pending pending_env (PInt 7) (PInt 42) n"
  by (simp add: reports_pending_def pending_env_run_info completed_status_def
      bind_exn_def py_lower_def is_ascii_def lower_char_def)

text \<open>
  Claim C2, as amended. When every status check yields a pending outcome (no run
  information, or a run whose state is not "completed"), and every progress line can
  be printed (standard output takes every text and both ids have a text), the \<open>while\<close>
  loop of \<open>check_pipeline_status\<close> invokes \<open>get_pipeline_status\<close> exactly \<open>max_attempts\<close>
  (100) times and then returns the timeout update, which sets both \<open>build_status\<close> and
  \<open>error\<close>; so does the node, once the state holds a pipeline id and a build id. The
  loop is bounded: \<open>poll_status\<close> is a total function.
\<close>

theorem check_pipeline_status_timeout:
  assumes "\<forall>n. reports_pending e pid bid n"
    and "stdout_ok e" and "formats e pid" and "formats e bid"
  shows "poll_status e pid bid 0 c =
           (Inr timeout_update, c\<lparr>status_checks := status_checks c + max_attempts,
                                 sleeps := sleeps c + max_attempts\<rparr>)
       \<and> (state_get st ''pipeline_id'' PNone = pid \<and> state_get st ''build_id'' PNone = bid
            \<and> truthy pid \<and> truthy bid \<longrightarrow>
          check_pipeline_status e st c =
           (Inr timeout_update, c\<lparr>status_checks := status_checks c + max_attempts,
                                 sleeps := Suc (sleeps c) + max_attempts\<rparr>))
       \<and> max_attempts = 100
       \<and> map_of timeout_update ''build_status'' =
            Some (PStr ''Timeout - Status check exceeded maximum attempts'')
       \<and> map_of timeout_update ''error'' = Some (PStr ''Pipeline status check timed out'')"
proof -
  have loop: "\<And>c. poll_status e pid bid 0 c =
           (Inr timeout_update, c\<lparr>status_checks := status_checks c + max_attempts,
                                 sleeps := sleeps c + max_attempts\<rparr>)"
    using poll_status_pending_from[OF assms(1,2,4), of 0] by simp
  have node: "check_pipeline_status e st c =
           (Inr timeout_update, c\<lparr>status_checks := status_checks c + max_attempts,
                                 sleeps := Suc (sleeps c) + max_attempts\<rparr>)"
    if "state_get st ''pipeline_id'' PNone = pid" "state_get st ''build_id'' PNone = bid"
       "truthy pid" "truthy bid"
    using check_pipeline_status_polls[OF that assms(2,3,4)] loop by (simp add: sleep_def)
  show ?thesis using loop node by (simp add: timeout_update_def max_attempts_def)
qed

theorem check_pipeline_status_timeout_witness:
  "check_pipeline_status pending_env built_state ctr0 =
     (Inr timeout_update, ctr0\<lparr>status_checks := 100, sleeps := 101\<rparr>)"
proof -
  have p: "\<forall>n. reports_pending pending_env (PInt 7) (PInt 42) n"
    by (simp add: pending_env_pending)
  have f: "formats pending_env (PInt 7)" "formats pending_env (PInt 42)"
    by (simp_all add: formats_def pending_env_str_7 pending_env_str_42)
  show ?thesis
    using check_pipeline_status_timeout[OF p pending_env_stdout_ok f, of ctr0 built_state]
    by (simp add: built_state_def state_get_def ctr0_def max_attempts_def)
qed

lemma in_progress_zh_not_ascii: "\<not> list_all is_ascii in_progress_zh"
  by (simp add: in_progress_zh_def is_ascii_def)

lemma in_progress_zh_lower: "py_lower e in_progress_zh = unicode_lower e in_progress_zh"
  using in_progress_zh_not_ascii by (simp add: py_lower_def)

lemma in_progress_zh_not_completed: "in_progress_zh \<noteq> ''completed''"
  by (simp add: in_progress_zh_def)

text \<open>
  Counterexample for claim C2 as written: every status check yields a run in progress,
  but its state text is one that an ASCII standard output cannot encode. The progress
  line of the first attempt raises inside the \<open>try\<close> block, and the node returns the
  error update after one check instead of the timeout update after 100.
\<close>

theorem check_pipeline_status_timeout_counterexample:
  "(\<forall>n. reports_pending unprintable_env (PInt 7) (PInt 42) n)
   \<and> check_pipeline_status unprintable_env built_state ctr0 =
       (Inr [(''error'', PStr (''Error checking pipeline status: '' @ quoted ''ascii'' @
               '' codec can'' @ [CHR 0x27] @
               ''t encode characters in position 24-26: ordinal not in range(128)''))],
        ctr0\<lparr>status_checks := 1, sleeps := 1\<rparr>)"
proof -
  have s7: "py_str unprintable_env (PInt 7) = Inr ''7''"
    and s42: "py_str unprintable_env (PInt 42) = Inr ''42''"
    using pending_env_str_7 pending_env_str_42
    by (simp_all add: py_str_def unprintable_env_def)
  have g: "get_pipeline_status unprintable_env (PInt 7) (PInt 42) n =
             Inr (PDict [(''state'', PStr in_progress_zh)])" for n
    by (simp add: get_pipeline_status_def azure_devops_token_set_def s7 s42
        status_response_def)
      (simp add: unprintable_env_def pending_env_def)
  have ul: "unicode_lower unprintable_env in_progress_zh = in_progress_zh"
    by (simp add: unprintable_env_def pending_env_def)
  have cs: "completed_status unprintable_env (PDict [(''state'', PStr in_progress_zh)]) = Inr None"
    by (simp add: completed_status_def bind_exn_def in_progress_zh_lower ul
        in_progress_zh_not_completed)
  have 1: "\<forall>n. reports_pending unprintable_env (PInt 7) (PInt 42) n"
    by (simp add: reports_pending_def g cs)
  have so: "stdout_write unprintable_env = ascii_stdout"
    by (simp add: unprintable_env_def)
  have pp: "poll_pass unprintable_env (PInt 7) (PInt 42) 0 0 =
      Raised (ValueError (quoted ''ascii'' @ '' codec can'' @ [CHR 0x27] @
             ''t encode characters in position 24-26: ordinal not in range(128)''))"
    by (simp add: poll_pass_def g cs py_print_def s42 py_str_PStr so ascii_stdout_def
        in_progress_zh_not_ascii)
  have a: "ascii_stdout ''Waiting 3 seconds before first status check...'' = None"
    "ascii_stdout ''Starting status polling for pipeline 7, run 42...'' = None"
    by (simp_all add: ascii_stdout_def is_ascii_def)
  have 2: "check_pipeline_status unprintable_env built_state ctr0 =
       poll_status unprintable_env (PInt 7) (PInt 42) 0 (sleep ctr0)"
    by (simp add: check_pipeline_status_def built_state_def state_get_def py_print_def
        s7 s42 so a)
  have "poll_status unprintable_env (PInt 7) (PInt 42) 0 (sleep ctr0) =
       (Inr [(''error'', PStr (''Error checking pipeline status: '' @ quoted ''ascii'' @
               '' codec can'' @ [CHR 0x27] @
               ''t encode characters in position 24-26: ordinal not in range(128)''))],
        ctr0\<lparr>status_checks := 1, sleeps := 1\<rparr>)"
    using poll_status_step_raised[of 0 unprintable_env "PInt 7" "PInt 42" "sleep ctr0", OF _ ]
      pp by (simp add: max_attempts_def sleep_def ctr0_def)
  with 1 2 show ?thesis by simp
qed


lemma third_try_env_prints:
  "stdout_ok third_try_env" "formats third_try_env (PInt 7)" "formats third_try_env (PInt 42)"
  using pending_env_stdout_ok pending_env_str_7 pending_env_str_42
  by (simp_all add: third_try_env_def stdout_ok_def formats_def py_str_def)




subsection \<open>The approval gate\<close>

lemma validate_approval_rejected:
  "st ''llm_approval'' \<noteq> Some (PStr ''Approved'') \<Longrightarrow> validate_approval st = ''Rejected''"
  by (auto simp: validate_approval_def state_get_def split: option.splits)

lemma validate_approval_approved:
  "st ''llm_approval'' = Some (PStr ''Approved'') \<Longrightarrow> validate_approval st = ''Approved''"
  by (simp add: validate_approval_def state_get_def)

lemma validate_approval_cases:
  "validate_approval st = ''Approved'' \<or> validate_approval st = ''Rejected''"
  by (simp add: validate_approval_def)

lemma two_le_cap: "2 \<le> cap \<Longrightarrow> \<exists>n. cap = Suc (Suc n)"
  by (metis add_2_eq_Suc le_Suc_ex)

lemma approval_run_rejected:
  assumes "consult_slack_messages e s0 c = (Inr u1, c1)"
    and "check_albert_message e (merge s0 u1) c1 = (Inr u2, c2)"
    and "validate_approval (merge (merge s0 u1) u2) = ''Rejected''"
    and "2 \<le> cap"
  shows "run (approval_workflow e) cap s0 c =
      (Finished, merge (merge s0 u1) u2, c2,
       [(''consult_slack_messages'', Inr u1), (''check_albert_message'', Inr u2)])"
proof -
  obtain n where cap: "cap = Suc (Suc n)"
    using assms(4) two_le_cap by blast
  show ?thesis
    using assms(1-3) by (simp add: cap run_def approval_workflow_def next_target_def)
qed

lemma find_albert_frame:
  "find_albert e ms c = (r, c') \<Longrightarrow>
     trigger_calls c' = trigger_calls c \<and> status_checks c' = status_checks c \<and>
     sleeps c' = sleeps c \<and> llm_calls c' = llm_calls c \<and> list_calls c' = list_calls c \<and>
     history_calls c' = history_calls c"
proof (induction ms arbitrary: c)
  case Nil
  then show ?case by auto
next
  case (Cons m ms)
  show ?case
  proof (cases "dict_get m ''user'' (PStr [])")
    case (Inl ex)
    with Cons.prems show ?thesis by auto
  next
    case (Inr uid)
    let ?c1 = "c\<lparr>users_calls := Suc (users_calls c)\<rparr>"
    from Cons.prems Inr have "find_albert e ms ?c1 = (r, c') \<or> c' = ?c1"
      by (auto simp: Let_def split: sum.splits if_splits)
    then show ?thesis
    proof
      assume "find_albert e ms ?c1 = (r, c')"
      from Cons.IH[OF this] show ?thesis by simp
    next
      assume "c' = ?c1" then show ?thesis by simp
    qed
  qed
qed

lemma check_albert_message_frame:
  "check_albert_message e st c = (r, c') \<Longrightarrow>
     trigger_calls c' = trigger_calls c \<and> status_checks c' = status_checks c \<and>
     sleeps c' = sleeps c"
  by (auto simp: check_albert_message_def Let_def split: sum.splits prod.splits if_splits
      dest: find_albert_frame)

lemma consult_slack_messages_frame:
  "consult_slack_messages e st c = (r, c') \<Longrightarrow>
     trigger_calls c' = trigger_calls c \<and> status_checks c' = status_checks c \<and>
     sleeps c' = sleeps c"
  by (auto simp: consult_slack_messages_def Let_def split: sum.splits prod.splits if_splits)


lemma approval_trigger_only_if_approved:
  assumes "run (approval_workflow e) cap s0 c = (out, s, c', tr)"
    and "0 < invocations ''trigger_pipeline'' tr"
  shows "\<exists>u1 c1 u2 c2. consult_slack_messages e s0 c = (Inr u1, c1)
          \<and> check_albert_message e (merge s0 u1) c1 = (Inr u2, c2)
          \<and> validate_approval (merge (merge s0 u1) u2) = ''Approved''"
proof (cases cap)
  case 0
  with assms show ?thesis
    by (auto simp: run_def approval_workflow_def invocations_def)
next
  case (Suc m)
  note cap1 = this
  obtain r1 c1 where r1: "consult_slack_messages e s0 c = (r1, c1)" by fastforce
  show ?thesis
  proof (cases r1)
    case (Inl ex)
    with assms r1 cap1 show ?thesis
      by (auto simp: run_def approval_workflow_def invocations_def)
  next
    case (Inr u1)
    note u1 = this
    show ?thesis
    proof (cases m)
      case 0
      with assms r1 cap1 u1 show ?thesis
        by (auto simp: run_def approval_workflow_def invocations_def next_target_def)
    next
      case (Suc n)
      obtain r2 c2 where r2: "check_albert_message e (merge s0 u1) c1 = (r2, c2)" by fastforce
      show ?thesis
      proof (cases r2)
        case (Inl ex)
        with assms r1 cap1 u1 Suc r2 show ?thesis
          by (auto simp: run_def approval_workflow_def invocations_def next_target_def)
      next
        case (Inr u2)
        show ?thesis
        proof (cases "validate_approval (merge (merge s0 u1) u2) = ''Approved''")
          case True
          with r1 u1 r2 Inr show ?thesis by simp
        next
          case False
          then have "validate_approval (merge (merge s0 u1) u2) = ''Rejected''"
            using validate_approval_cases by blast
          with assms r1 cap1 u1 Suc r2 Inr show ?thesis
            by (auto simp: run_def approval_workflow_def invocations_def next_target_def)
        qed
      qed
    qed
  qed
qed

text \<open>
  Claim C1. In every run of the approval workflow in which the state that reaches the
  gate has no \<open>llm_approval\<close> field or one that is not \<open>"Approved"\<close>, the gate
  \<open>validate_approval\<close> returns \<open>"Rejected"\<close>, the run ends at END right after
  \<open>check_albert_message\<close>, and \<open>trigger_pipeline\<close> is invoked zero times (its trace has no
  entry and the count of \<open>trigger_azure_pipeline\<close> calls is unchanged). The step cap
  must allow the two node executions.
\<close>

theorem rejected_run_never_triggers:
  assumes "consult_slack_messages e s0 c = (Inr u1, c1)"
    and "check_albert_message e (merge s0 u1) c1 = (Inr u2, c2)"
    and "merge (merge s0 u1) u2 ''llm_approval'' \<noteq> Some (PStr ''Approved'')"
    and "2 \<le> cap"
  shows "validate_approval (merge (merge s0 u1) u2) = ''Rejected''
     \<and> run (approval_workflow e) cap s0 c =
          (Finished, merge (merge s0 u1) u2, c2,
           [(''consult_slack_messages'', Inr u1), (''check_albert_message'', Inr u2)])
     \<and> invocations ''trigger_pipeline''
          [(''consult_slack_messages'', Inr u1), (''check_albert_message'', Inr u2)] = 0
     \<and> trigger_calls c2 = trigger_calls c"
proof -
  have g: "validate_approval (merge (merge s0 u1) u2) = ''Rejected''"
    using assms(3) by (rule validate_approval_rejected)
  have t: "trigger_calls c2 = trigger_calls c"
    using consult_slack_messages_frame[OF assms(1)] check_albert_message_frame[OF assms(2)]
    by simp
  show ?thesis
    using g t approval_run_rejected[OF assms(1,2) g assms(4)]
    by (simp add: invocations_def)
qed

theorem rejected_run_never_triggers_witness:
  "run (approval_workflow pending_env) 8 [''channel'' \<mapsto> PStr ''general''] ctr0 =
     (Finished,
      merge (merge [''channel'' \<mapsto> PStr ''general'']
               [(''error'', PStr ''Error fetching Slack messages: down'')]) not_found_update,
      ctr0\<lparr>list_calls := 1\<rparr>,
      [(''consult_slack_messages'', Inr [(''error'', PStr ''Error fetching Slack messages: down'')]),
       (''check_albert_message'', Inr not_found_update)])"
proof -
  let ?s0 = "[''channel'' \<mapsto> PStr ''general'']"
  let ?u1 = "[(''error'', PStr ''Error fetching Slack messages: down'')]"
  let ?c1 = "ctr0\<lparr>list_calls := 1\<rparr>"
  have a: "consult_slack_messages pending_env ?s0 ctr0 = (Inr ?u1, ?c1)"
    by (simp add: consult_slack_messages_def state_item_def get_slack_channel_id_def
        pending_env_def ctr0_def)
  have b: "check_albert_message pending_env (merge ?s0 ?u1) ?c1 = (Inr not_found_update, ?c1)"
    by (simp add: check_albert_message_def state_get_def merge_def)
  have c: "merge (merge ?s0 ?u1) not_found_update ''llm_approval'' \<noteq> Some (PStr ''Approved'')"
    by (simp add: merge_def not_found_update_def)
  have d: "(2::nat) \<le> 8" by simp
  show ?thesis
    using rejected_run_never_triggers[OF a b c d] by simp
qed

subsection \<open>Merging of updates\<close>

lemma merge_Nil [simp]: "merge s [] = s"
  by (simp add: merge_def)

lemma merge_Cons [simp]: "merge s (kv # u) = merge (s(fst kv \<mapsto> snd kv)) u"
  by (simp add: merge_def)

lemma merge_append: "merge s (u @ w) = merge (merge s u) w"
  by (simp add: merge_def)

lemma merge_apply_notin: "f \<notin> fst ` set u \<Longrightarrow> merge s u f = s f"
  by (induction u arbitrary: s) simp_all


lemma merge_snoc: "merge s (u @ [kv]) = (merge s u)(fst kv \<mapsto> snd kv)"
  by (simp add: merge_def)

lemma merge_apply:
  "merge s u f = (case written u f of None \<Rightarrow> s f | Some v \<Rightarrow> Some v)"
proof (induction u rule: rev_induct)
  case Nil
  then show ?case by (simp add: written_def)
next
  case (snoc kv u)
  show ?case
  proof (cases "f = fst kv")
    case True
    then show ?thesis by (simp only: merge_snoc written_def) simp
  next
    case False
    then show ?thesis using snoc by (simp only: merge_snoc written_def) simp
  qed
qed

lemma dom_merge: "dom s \<subseteq> dom (merge s u)"
proof (induction u rule: rev_induct)
  case Nil
  then show ?case by simp
next
  case (snoc kv u)
  then show ?case by (simp only: merge_snoc) auto
qed


lemma state_after_Nil: "state_after s [] = s"
  by (simp add: state_after_def updates_def)

lemma state_after_returned: "state_after s ((n, Inr u) # tr) = state_after (merge s u) tr"
  by (simp add: state_after_def updates_def)

lemma state_after_raised: "state_after s ((n, Inl ex) # tr) = state_after s tr"
  by (simp add: state_after_def updates_def)

lemma state_after_append: "state_after s (tr1 @ tr2) = state_after (state_after s tr1) tr2"
  by (simp add: state_after_def updates_def)

lemma dom_state_after: "dom s \<subseteq> dom (state_after s tr)"
proof (induction tr arbitrary: s)
  case Nil
  then show ?case by (simp add: state_after_Nil)
next
  case (Cons a tr)
  obtain n r where a: "a = (n, r)" by (cases a)
  show ?case
  proof (cases r)
    case (Inl ex)
    then show ?thesis using Cons[of s] by (simp add: a state_after_raised)
  next
    case (Inr u)
    have "dom s \<subseteq> dom (merge s u)" by (rule dom_merge)
    also have "\<dots> \<subseteq> dom (state_after (merge s u) tr)" by (rule Cons)
    finally show ?thesis by (simp add: a Inr state_after_returned)
  qed
qed

lemma state_after_unwritten:
  "\<forall>entry\<in>set tr. \<forall>u. snd entry = Inr u \<longrightarrow> f \<notin> fst ` set u \<Longrightarrow> state_after s tr f = s f"
proof (induction tr arbitrary: s)
  case Nil
  then show ?case by (simp add: state_after_Nil)
next
  case (Cons a tr)
  obtain n r where a: "a = (n, r)" by (cases a)
  have rest: "\<forall>entry\<in>set tr. \<forall>u. snd entry = Inr u \<longrightarrow> f \<notin> fst ` set u"
    using Cons.prems by simp
  show ?case
  proof (cases r)
    case (Inl ex)
    then show ?thesis using Cons.IH[OF rest] by (simp add: a state_after_raised)
  next
    case (Inr u)
    then have "f \<notin> fst ` set u" using Cons.prems a by simp
    then have "merge s u f = s f" by (rule merge_apply_notin)
    moreover have "state_after (merge s u) tr f = merge s u f"
      using Cons.IH[OF rest] .
    ultimately show ?thesis by (simp add: a Inr state_after_returned)
  qed
qed


lemma run_from_state:
  "run_from g n t s c tr = (out, s', c', tr') \<Longrightarrow>
     \<exists>ext. tr' = tr @ ext \<and> s' = state_after s ext"
proof (induction g n t s c tr rule: run_from.induct)
  case (1 g steps s c tr)
  then show ?case by (simp add: state_after_Nil)
next
  case (2 g n s c tr)
  then show ?case by (simp add: state_after_Nil)
next
  case (3 g steps n s c tr)
  show ?case
  proof (cases "map_of (nodes g) n")
    case None
    with "3.prems" show ?thesis by (simp add: state_after_Nil)
  next
    case (Some work)
    obtain r c1 where w: "work s c = (r, c1)" by fastforce
    show ?thesis
    proof (cases r)
      case (Inl ex)
      with "3.prems" Some w have "tr' = tr @ [(n, Inl ex)]" "s' = s" by simp_all
      then show ?thesis by (simp add: state_after_raised state_after_Nil)
    next
      case (Inr u)
      note ru = this
      show ?thesis
      proof (cases "next_target g n (merge s u)")
        case (Inl stop)
        with "3.prems" Some w ru have "tr' = tr @ [(n, Inr u)]" "s' = merge s u" by simp_all
        then show ?thesis by (simp add: state_after_returned state_after_Nil)
      next
        case (Inr t)
        with "3.prems" Some w ru
        have "run_from g steps t (merge s u) c1 (tr @ [(n, Inr u)]) = (out, s', c', tr')"
          by simp
        from "3.IH"[OF Some w[symmetric] ru Inr this]
        obtain ext where "tr' = (tr @ [(n, Inr u)]) @ ext" "s' = state_after (merge s u) ext"
          by blast
        then have "tr' = tr @ ((n, Inr u) # ext) \<and> s' = state_after s ((n, Inr u) # ext)"
          by (simp add: state_after_returned)
        then show ?thesis by blast
      qed
    qed
  qed
qed

lemma run_state: "run g cap s0 c = (out, s, c', tr) \<Longrightarrow> s = state_after s0 tr"
  using run_from_state[of g cap "entry g" s0 c "[]" out s c' tr] by (simp add: run_def)


text \<open>
  Claim C5, as amended. In every run of the engine: when a node B returned an update
  that writes \<open>v\<close> to a field \<open>f\<close> and no node invoked after B in the run writes \<open>f\<close>, the
  final StateRecord has \<open>f = v\<close>, whatever earlier nodes wrote; the final StateRecord is
  the initial one with the returned updates merged in order; and the fields of the
  StateRecord after any prefix of the run are all fields of the final StateRecord.
\<close>

theorem last_writer_wins:
  assumes "run g cap s0 c = (out, s, c', tr)"
    and "tr = before @ [(b, Inr uB)] @ later"
    and "written uB f = Some v"
    and "\<forall>entry\<in>set later. \<forall>u. snd entry = Inr u \<longrightarrow> f \<notin> fst ` set u"
  shows "s f = Some v
       \<and> s = state_after s0 tr
       \<and> (\<forall>tr1 tr2. tr = tr1 @ tr2 \<longrightarrow> dom (state_after s0 tr1) \<subseteq> dom s)"
proof -
  have s: "s = state_after s0 tr" using assms(1) by (rule run_state)
  have "state_after s0 tr = state_after (merge (state_after s0 before) uB) later"
    by (simp add: assms(2) state_after_append state_after_returned)
  then have "s f = merge (state_after s0 before) uB f"
    using s state_after_unwritten[OF assms(4)] by simp
  then have v: "s f = Some v" using assms(3) by (simp add: merge_apply)
  have d: "dom (state_after s0 tr1) \<subseteq> dom s" if "tr = tr1 @ tr2" for tr1 tr2
    using s that dom_state_after[of "state_after s0 tr1" tr2] by (simp add: state_after_append)
  show ?thesis using v s d by blast
qed


lemma four_le_cap: "4 \<le> cap \<Longrightarrow> \<exists>n. cap = Suc (Suc (Suc (Suc n)))"
  by (metis add_2_eq_Suc le_Suc_ex numeral_Bit0 add.assoc)

lemma approval_run_approved:
  assumes "consult_slack_messages e s0 c = (Inr u1, c1)"
    and "check_albert_message e (merge s0 u1) c1 = (Inr u2, c2)"
    and "validate_approval (merge (merge s0 u1) u2) = ''Approved''"
    and "trigger_pipeline e (merge (merge s0 u1) u2) c2 = (Inr u3, c3)"
    and "check_pipeline_status e (merge (merge (merge s0 u1) u2) u3) c3 = (Inr u4, c4)"
    and "4 \<le> cap"
  shows "run (approval_workflow e) cap s0 c =
      (Finished, merge (merge (merge (merge s0 u1) u2) u3) u4, c4,
       [(''consult_slack_messages'', Inr u1), (''check_albert_message'', Inr u2),
        (''trigger_pipeline'', Inr u3), (''check_pipeline_status'', Inr u4)])"
proof -
  obtain n where cap: "cap = Suc (Suc (Suc (Suc n)))"
    using assms(6) four_le_cap by blast
  show ?thesis
    using assms(1-5) by (simp add: cap run_def approval_workflow_def next_target_def)
qed

lemma approving_env_fields:
  "azure_devops_pipeline_id approving_env = None"
  "conversations_list approving_env n = Response 404 (Inl ''not JSON'')"
  "users_info approving_env n = Response 200
          (Inr (PDict [(''ok'', PBool True),
                       (''user'', PDict [(''real_name'', PStr ''Albert H.'')])]))"
  "llm_invoke approving_env n = Inr (PStr ''Approved'')"
  by (simp_all add: approving_env_def pending_env_def)

lemma seeded_consult:
  "consult_slack_messages approving_env seeded_state ctr0 =
     (Inr [(''error'', PStr (''Channel '' @ quoted ''general'' @ '' not found or not accessible''))],
      ctr0\<lparr>list_calls := 1\<rparr>)"
  by (simp add: consult_slack_messages_def state_item_def seeded_state_def
      get_slack_channel_id_def approving_env_fields ctr0_def py_str_def)

lemma seeded_find_albert:
  "find_albert approving_env [PDict [(''user'', PStr ''U1''), (''text'', PStr ''Ship it'')]] c =
     (Inr (PStr ''Ship it''), c\<lparr>users_calls := Suc (users_calls c)\<rparr>)"
  by (simp add: user_is_albert_def approving_env_fields bind_exn_def)

lemma seeded_check_albert:
  "check_albert_message approving_env
     (merge seeded_state
        [(''error'', PStr (''Channel '' @ quoted ''general'' @ '' not found or not accessible''))])
     (ctr0\<lparr>list_calls := 1\<rparr>) =
     (Inr [(''albert_message'', PStr ''Ship it''), (''llm_approval'', PStr ''Approved'')],
      ctr0\<lparr>list_calls := 1, users_calls := 1, llm_calls := 1\<rparr>)"
  by (simp add: check_albert_message_def state_get_def seeded_state_def seeded_find_albert
      bind_exn_def py_strip_def is_space_def approving_env_fields ctr0_def
      del: find_albert.simps)

lemma seeded_trigger:
  "trigger_pipeline approving_env st c =
     (Inr [(''error'', PStr ''Azure DevOps pipeline ID not configured'')], c)"
  by (simp add: trigger_pipeline_def trigger_pipeline_body_def approving_env_fields)

lemma seeded_status:
  "st ''pipeline_id'' = None \<Longrightarrow> check_pipeline_status e st c =
     (Inr [(''error'', PStr ''No pipeline ID or build ID available'')], c)"
  by (simp add: check_pipeline_status_def state_get_def)

lemma seeded_run:
  "run (approval_workflow approving_env) 8 seeded_state ctr0 =
     (Finished,
      merge (merge (merge (merge seeded_state
        [(''error'', PStr (''Channel '' @ quoted ''general'' @ '' not found or not accessible''))])
        [(''albert_message'', PStr ''Ship it''), (''llm_approval'', PStr ''Approved'')])
        [(''error'', PStr ''Azure DevOps pipeline ID not configured'')])
        [(''error'', PStr ''No pipeline ID or build ID available'')],
      ctr0\<lparr>list_calls := 1, users_calls := 1, llm_calls := 1\<rparr>,
      [(''consult_slack_messages'',
        Inr [(''error'', PStr (''Channel '' @ quoted ''general'' @ '' not found or not accessible''))]),
       (''check_albert_message'',
        Inr [(''albert_message'', PStr ''Ship it''), (''llm_approval'', PStr ''Approved'')]),
       (''trigger_pipeline'', Inr [(''error'', PStr ''Azure DevOps pipeline ID not configured'')]),
       (''check_pipeline_status'', Inr [(''error'', PStr ''No pipeline ID or build ID available'')])])"
proof (rule approval_run_approved[OF seeded_consult seeded_check_albert _ seeded_trigger seeded_status])
  show "validate_approval (merge (merge seeded_state
        [(''error'', PStr (''Channel '' @ quoted ''general'' @ '' not found or not accessible''))])
        [(''albert_message'', PStr ''Ship it''), (''llm_approval'', PStr ''Approved'')]) = ''Approved''"
    by (simp add: validate_approval_def state_get_def)
  show "merge (merge (merge seeded_state
        [(''error'', PStr (''Channel '' @ quoted ''general'' @ '' not found or not accessible''))])
        [(''albert_message'', PStr ''Ship it''), (''llm_approval'', PStr ''Approved'')])
        [(''error'', PStr ''Azure DevOps pipeline ID not configured'')] ''pipeline_id'' = None"
    by (simp add: seeded_state_def)
  show "(4::nat) \<le> 8" by simp
qed

text \<open>
  Claim C5 as stated fails when a third node writes the field: in this run
  \<open>consult_slack_messages\<close> and \<open>trigger_pipeline\<close> both write \<open>error\<close>, in that order,
  and the final \<open>error\<close> is the one \<open>check_pipeline_status\<close> wrote afterwards.
\<close>

theorem last_writer_counterexample:
  "snd (snd (snd (run (approval_workflow approving_env) 8 seeded_state ctr0))) =
     [(''consult_slack_messages'',
        Inr [(''error'', PStr (''Channel '' @ quoted ''general'' @ '' not found or not accessible''))]),
       (''check_albert_message'',
        Inr [(''albert_message'', PStr ''Ship it''), (''llm_approval'', PStr ''Approved'')]),
       (''trigger_pipeline'', Inr [(''error'', PStr ''Azure DevOps pipeline ID not configured'')]),
       (''check_pipeline_status'', Inr [(''error'', PStr ''No pipeline ID or build ID available'')])]
   \<and> fst (snd (run (approval_workflow approving_env) 8 seeded_state ctr0)) ''error'' =
       Some (PStr ''No pipeline ID or build ID available'')
   \<and> fst (snd (run (approval_workflow approving_env) 8 seeded_state ctr0)) ''error'' \<noteq>
       Some (PStr ''Azure DevOps pipeline ID not configured'')"
  by (simp add: seeded_run)

theorem last_writer_wins_witness:
  "fst (snd (run (approval_workflow approving_env) 8 seeded_state ctr0)) ''llm_approval'' =
     Some (PStr ''Approved'')
   \<and> dom seeded_state \<subseteq> dom (fst (snd (run (approval_workflow approving_env) 8 seeded_state ctr0)))"
proof -
  let ?uB = "[(''albert_message'', PStr ''Ship it''), (''llm_approval'', PStr ''Approved'')]"
  let ?before = "[(''consult_slack_messages'',
        Inr [(''error'', PStr (''Channel '' @ quoted ''general'' @ '' not found or not accessible''))])]"
  let ?later = "[(''trigger_pipeline'', Inr [(''error'', PStr ''Azure DevOps pipeline ID not configured'')]),
       (''check_pipeline_status'', Inr [(''error'', PStr ''No pipeline ID or build ID available'')])]"
  have tr: "?before @ [(''check_albert_message'', Inr ?uB)] @ ?later =
     ?before @ [(''check_albert_message'', Inr ?uB)] @ ?later" by (rule refl)
  have w: "written ?uB ''llm_approval'' = Some (PStr ''Approved'')"
    by (simp add: written_def)
  have l: "\<forall>entry\<in>set ?later. \<forall>u. snd entry = Inr u \<longrightarrow> ''llm_approval'' \<notin> fst ` set u"
    by simp
  have r: "run (approval_workflow approving_env) 8 seeded_state ctr0 =
     (Finished, fst (snd (run (approval_workflow approving_env) 8 seeded_state ctr0)),
      ctr0\<lparr>list_calls := 1, users_calls := 1, llm_calls := 1\<rparr>,
      ?before @ [(''check_albert_message'', Inr ?uB)] @ ?later)"
    by (simp add: seeded_run)
  from last_writer_wins[OF r tr w l]
  have a: "fst (snd (run (approval_workflow approving_env) 8 seeded_state ctr0)) ''llm_approval'' =
     Some (PStr ''Approved'')"
    and b: "\<forall>tr1 tr2. ?before @ [(''check_albert_message'', Inr ?uB)] @ ?later = tr1 @ tr2 \<longrightarrow>
       dom (state_after seeded_state tr1) \<subseteq>
       dom (fst (snd (run (approval_workflow approving_env) 8 seeded_state ctr0)))"
    by blast+
  from b have "dom (state_after seeded_state []) \<subseteq>
       dom (fst (snd (run (approval_workflow approving_env) 8 seeded_state ctr0)))"
    by (metis append_Nil)
  then show ?thesis using a by (simp add: state_after_Nil)
qed

subsection \<open>The joke workflow\<close>








subsection \<open>The approval decision\<close>













subsection \<open>Swallowed lookup failures\<close>






subsection \<open>Message retrieval failures\<close>

lemma get_slack_messages_quiet:
  "quiet_failure (conversations_history e n) \<Longrightarrow> get_slack_messages e cid n = Inr (PList [])"
  by (auto simp: quiet_failure_def get_slack_messages_def bind_exn_def
      split: http_result.splits sum.splits)

lemma get_slack_messages_empty_channel:
  "conversations_history e n = empty_channel \<Longrightarrow> get_slack_messages e cid n = Inr (PList [])"
  by (simp add: empty_channel_def get_slack_messages_def bind_exn_def)

lemma consult_slack_messages_no_messages:
  assumes "s0 ''channel'' = Some ch"
    and "get_slack_channel_id e ch (list_calls c) = Inr cid" and "truthy cid"
    and "get_slack_messages e cid (history_calls c) = Inr (PList [])"
  shows "consult_slack_messages e s0 c =
     (Inr [(''slack_messages'', PList [])],
      c\<lparr>list_calls := Suc (list_calls c), history_calls := Suc (history_calls c)\<rparr>)"
  using assms by (simp add: consult_slack_messages_def state_item_def)

lemma check_albert_message_no_messages:
  "s ''slack_messages'' = Some (PList []) \<Longrightarrow>
   check_albert_message e s c = (Inr not_found_update, c)"
  by (simp add: check_albert_message_def state_get_def)

lemma empty_channel_run:
  assumes "s0 ''channel'' = Some ch"
    and "get_slack_channel_id e ch (list_calls c) = Inr cid" and "truthy cid"
    and "get_slack_messages e cid (history_calls c) = Inr (PList [])"
    and "2 \<le> cap"
  shows "run (approval_workflow e) cap s0 c =
     (Finished, merge (merge s0 [(''slack_messages'', PList [])]) not_found_update,
      c\<lparr>list_calls := Suc (list_calls c), history_calls := Suc (history_calls c)\<rparr>,
      [(''consult_slack_messages'', Inr [(''slack_messages'', PList [])]),
       (''check_albert_message'', Inr not_found_update)])"
proof -
  let ?s1 = "merge s0 [(''slack_messages'', PList [])]"
  let ?c1 = "c\<lparr>list_calls := Suc (list_calls c), history_calls := Suc (history_calls c)\<rparr>"
  have a: "consult_slack_messages e s0 c = (Inr [(''slack_messages'', PList [])], ?c1)"
    using assms(1-4) by (rule consult_slack_messages_no_messages)
  have b: "check_albert_message e ?s1 ?c1 = (Inr not_found_update, ?c1)"
    by (rule check_albert_message_no_messages) simp
  have g: "validate_approval (merge ?s1 not_found_update) = ''Rejected''"
    by (simp add: validate_approval_def state_get_def not_found_update_def)
  show ?thesis using approval_run_rejected[OF a b g assms(5)] .
qed

text \<open>
  Claim C10, as amended. \<open>get_slack_messages\<close> returns the empty list, without raising
  and without a distinguished failure value, on every status other than 200 and on
  every decoded object whose \<open>ok\<close> flag is not true. When the channel lookup succeeds
  and the retrieval fails in one of these two ways, \<open>consult_slack_messages\<close> returns
  \<open>{slack_messages: []}\<close> with no \<open>error\<close> field, and the run ends with the same outcome,
  StateRecord, counters and trace as the run in which Slack reports a channel without
  messages, with \<open>llm_approval\<close> \<open>"Rejected"\<close>.
\<close>

theorem quiet_retrieval_failure_is_empty_channel:
  assumes "s0 ''channel'' = Some ch"
    and "get_slack_channel_id e ch (list_calls c) = Inr cid" and "truthy cid"
    and "quiet_failure (conversations_history e (history_calls c))"
    and "2 \<le> cap"
  shows "get_slack_messages e cid (history_calls c) = Inr (PList [])
       \<and> consult_slack_messages e s0 c =
           (Inr [(''slack_messages'', PList [])],
            c\<lparr>list_calls := Suc (list_calls c), history_calls := Suc (history_calls c)\<rparr>)
       \<and> run (approval_workflow e) cap s0 c =
           (Finished, merge (merge s0 [(''slack_messages'', PList [])]) not_found_update,
            c\<lparr>list_calls := Suc (list_calls c), history_calls := Suc (history_calls c)\<rparr>,
            [(''consult_slack_messages'', Inr [(''slack_messages'', PList [])]),
             (''check_albert_message'', Inr not_found_update)])
       \<and> run (approval_workflow e) cap s0 c =
           run (approval_workflow (e\<lparr>conversations_history := (\<lambda>n. empty_channel)\<rparr>)) cap s0 c
       \<and> merge (merge s0 [(''slack_messages'', PList [])]) not_found_update ''llm_approval'' =
           Some (PStr ''Rejected'')
       \<and> merge (merge s0 [(''slack_messages'', PList [])]) not_found_update ''slack_messages'' =
           Some (PList [])"
proof -
  let ?e' = "e\<lparr>conversations_history := (\<lambda>n. empty_channel)\<rparr>"
  have m: "get_slack_messages e cid (history_calls c) = Inr (PList [])"
    using assms(4) by (rule get_slack_messages_quiet)
  have m': "get_slack_messages ?e' cid (history_calls c) = Inr (PList [])"
    by (rule get_slack_messages_empty_channel) simp
  have ch': "get_slack_channel_id ?e' ch (list_calls c) = Inr cid"
    using assms(2) by (simp add: get_slack_channel_id_def)
  have r: "run (approval_workflow e) cap s0 c =
           (Finished, merge (merge s0 [(''slack_messages'', PList [])]) not_found_update,
            c\<lparr>list_calls := Suc (list_calls c), history_calls := Suc (history_calls c)\<rparr>,
            [(''consult_slack_messages'', Inr [(''slack_messages'', PList [])]),
             (''check_albert_message'', Inr not_found_update)])"
    using assms(1,2,3) m assms(5) by (rule empty_channel_run)
  have r': "run (approval_workflow ?e') cap s0 c =
           (Finished, merge (merge s0 [(''slack_messages'', PList [])]) not_found_update,
            c\<lparr>list_calls := Suc (list_calls c), history_calls := Suc (history_calls c)\<rparr>,
            [(''consult_slack_messages'', Inr [(''slack_messages'', PList [])]),
             (''check_albert_message'', Inr not_found_update)])"
    using assms(1) ch' assms(3) m' assms(5) by (rule empty_channel_run)
  have c1: "consult_slack_messages e s0 c =
           (Inr [(''slack_messages'', PList [])],
            c\<lparr>list_calls := Suc (list_calls c), history_calls := Suc (history_calls c)\<rparr>)"
    using assms(1,2,3) m by (rule consult_slack_messages_no_messages)
  have f: "merge (merge s0 [(''slack_messages'', PList [])]) not_found_update ''llm_approval'' =
           Some (PStr ''Rejected'')"
     "merge (merge s0 [(''slack_messages'', PList [])]) not_found_update ''slack_messages'' =
           Some (PList [])"
    by (simp_all add: not_found_update_def)
  show ?thesis using m c1 r r' f by simp
qed

lemma not_in_channel_lookup:
  "get_slack_channel_id not_in_channel_env (PStr ''general'') n = Inr (PStr ''C1'')"
  "get_slack_channel_id history_down_env (PStr ''general'') n = Inr (PStr ''C1'')"
  by (simp_all add: get_slack_channel_id_def not_in_channel_env_def history_down_env_def
      pending_env_def bind_exn_def)

theorem quiet_retrieval_failure_is_empty_channel_witness:
  "consult_slack_messages not_in_channel_env [''channel'' \<mapsto> PStr ''general''] ctr0 =
     (Inr [(''slack_messages'', PList [])], ctr0\<lparr>list_calls := 1, history_calls := 1\<rparr>)
   \<and> run (approval_workflow not_in_channel_env) 8 [''channel'' \<mapsto> PStr ''general''] ctr0 =
     run (approval_workflow (not_in_channel_env\<lparr>conversations_history := (\<lambda>n. empty_channel)\<rparr>)) 8
       [''channel'' \<mapsto> PStr ''general''] ctr0"
proof -
  have a: "[''channel'' \<mapsto> PStr ''general''] ''channel'' = Some (PStr ''general'')" by simp
  have b: "get_slack_channel_id not_in_channel_env (PStr ''general'') (list_calls ctr0) = Inr (PStr ''C1'')"
    by (rule not_in_channel_lookup)
  have c: "truthy (PStr ''C1'')" by simp
  have d: "quiet_failure (conversations_history not_in_channel_env (history_calls ctr0))"
    by (simp add: quiet_failure_def not_in_channel_env_def)
  have e: "(2::nat) \<le> 8" by simp
  note T = quiet_retrieval_failure_is_empty_channel[of "[''channel'' \<mapsto> PStr ''general'']"
      "PStr ''general''" not_in_channel_env ctr0 "PStr ''C1''" 8, OF a b c d e]
  have x: "consult_slack_messages not_in_channel_env [''channel'' \<mapsto> PStr ''general''] ctr0 =
     (Inr [(''slack_messages'', PList [])], ctr0\<lparr>list_calls := 1, history_calls := 1\<rparr>)"
    using T[THEN conjunct2, THEN conjunct1] by (simp add: ctr0_def)
  have y: "run (approval_workflow not_in_channel_env) 8 [''channel'' \<mapsto> PStr ''general''] ctr0 =
     run (approval_workflow (not_in_channel_env\<lparr>conversations_history := (\<lambda>n. empty_channel)\<rparr>)) 8
       [''channel'' \<mapsto> PStr ''general''] ctr0"
    using T[THEN conjunct2, THEN conjunct2, THEN conjunct2, THEN conjunct1] .
  show ?thesis using x y by (rule conjI)
qed

text \<open>
  Claim C10 as stated fails where it says that \<open>get_slack_messages\<close> never raises: it
  has no handler, so a request that raises propagates, and \<open>consult_slack_messages\<close>
  then returns an \<open>error\<close> field and no \<open>slack_messages\<close>.
\<close>

theorem get_slack_messages_raises_counterexample:
  "get_slack_messages history_down_env (PStr ''C1'') 0 = Inl (RuntimeFailure ''connection reset'')
   \<and> consult_slack_messages history_down_env [''channel'' \<mapsto> PStr ''general''] ctr0 =
       (Inr [(''error'', PStr ''Error fetching Slack messages: connection reset'')],
        ctr0\<lparr>list_calls := 1, history_calls := 1\<rparr>)"
  by (simp add: consult_slack_messages_def state_item_def not_in_channel_lookup ctr0_def)
     (simp add: get_slack_messages_def history_down_env_def)

subsection \<open>I/O failures of the status check\<close>

lemma io_failure_no_run_info:
  assumes "io_failure (pipeline_run_get e n)" and "stdout_ok e"
    and "formats e pid" and "formats e bid"
  shows "get_pipeline_status e pid bid n = Inr PNone"
proof -
  obtain p b where pb: "py_str e pid = Inr p" "py_str e bid = Inr b"
    using formats_text assms(3,4) by blast
  have pr: "py_print e (map Lit ts) = None" for ts
  proof -
    have "\<exists>text. fstring e (map Lit ts) = Inr text" by (induction ts) auto
    then show ?thesis using assms(2) py_print_written by blast
  qed
  have p2: "py_print e [Lit a, Lit b'] = None" for a b'
    using pr[of "[a, b']"] by simp
  have p4: "py_print e [Lit a, Lit b', Lit c', Lit d] = None" for a b' c' d
    using pr[of "[a, b', c', d]"] by simp
  show ?thesis
    using assms(1)
    by (auto simp: io_failure_def get_pipeline_status_def status_response_def pb p2 p4
        split: http_result.splits sum.splits)
qed

lemma io_failure_pending:
  assumes "io_failure (pipeline_run_get e n)" and "stdout_ok e"
    and "formats e pid" and "formats e bid"
  shows "reports_pending e pid bid n"
  by (simp add: reports_pending_def io_failure_no_run_info[OF assms])

lemma poll_status_checks_mono:
  "status_checks c \<le> status_checks (snd (poll_status e p b a c))"
proof (induction "max_attempts - a" arbitrary: a c)
  case 0
  then have "\<not> a < max_attempts" by simp
  then show ?case by (subst poll_status.simps) (simp split: option.splits)
next
  case (Suc d)
  then have lt: "a < max_attempts" and d: "d = max_attempts - Suc a" by arith+
  let ?c1 = "c\<lparr>status_checks := Suc (status_checks c)\<rparr>"
  show ?case
  proof (cases "poll_pass e p b a (status_checks c)")
    case (Completed msg)
    with lt show ?thesis by (simp add: poll_status_step_completed)
  next
    case StillPending
    with lt have "poll_status e p b a c = poll_status e p b (Suc a) (sleep ?c1)"
      by (simp add: poll_status_step_pending)
    moreover have "status_checks (sleep ?c1) \<le> status_checks (snd (poll_status e p b (Suc a) (sleep ?c1)))"
      using Suc.hyps(1)[OF d] .
    ultimately show ?thesis by (simp add: sleep_def)
  next
    case (Raised ex)
    with lt show ?thesis by (simp add: poll_status_step_raised)
  qed
qed

lemma poll_status_checks_at_least_one:
  assumes "a < max_attempts"
  shows "Suc (status_checks c) \<le> status_checks (snd (poll_status e p b a c))"
proof (cases "poll_pass e p b a (status_checks c)")
  case (Completed msg)
  with assms show ?thesis by (simp add: poll_status_step_completed)
next
  case StillPending
  let ?c1 = "c\<lparr>status_checks := Suc (status_checks c)\<rparr>"
  from StillPending assms have "poll_status e p b a c = poll_status e p b (Suc a) (sleep ?c1)"
    by (simp add: poll_status_step_pending)
  moreover have "status_checks (sleep ?c1) \<le> status_checks (snd (poll_status e p b (Suc a) (sleep ?c1)))"
    by (rule poll_status_checks_mono)
  ultimately show ?thesis by (simp add: sleep_def)
next
  case (Raised ex)
  with assms show ?thesis by (simp add: poll_status_step_raised)
qed

lemma io_failure_not_last_check:
  assumes "io_failure (pipeline_run_get e (status_checks c))" and "stdout_ok e"
    and "formats e p" and "formats e b"
  shows "Suc (Suc (status_checks c)) \<le> status_checks (snd (poll_status e p b 0 c))"
proof -
  let ?c1 = "c\<lparr>status_checks := Suc (status_checks c)\<rparr>"
  have "poll_pass e p b 0 (status_checks c) = StillPending"
    using io_failure_pending[OF assms] assms(2,4) by (rule poll_pass_pending)
  then have "poll_status e p b 0 c = poll_status e p b (Suc 0) (sleep ?c1)"
    by (simp add: poll_status_step_pending max_attempts_def)
  moreover have "Suc (status_checks (sleep ?c1)) \<le>
       status_checks (snd (poll_status e p b (Suc 0) (sleep ?c1)))"
    by (rule poll_status_checks_at_least_one) (simp add: max_attempts_def)
  ultimately show ?thesis by (simp add: sleep_def)
qed

text \<open>
  Claim C7, as amended. Where the lines of the node can be printed (standard output
  takes every text and both ids have a text), a transient I/O failure of the status
  check is a pending outcome: \<open>get_pipeline_status\<close> returns \<open>None\<close>, the loop sleeps,
  counts the attempt and checks again, under the same budget of \<open>max_attempts\<close>. The
  policy is fixed in the code: this holds for every such environment (so for every
  value of the configuration), every attempt and every state holding the two ids, and
  the node makes at least one more check after a failed one.
\<close>

theorem io_failure_is_retried:
  assumes "io_failure (pipeline_run_get e (status_checks c))"
    and "stdout_ok e" and "formats e pid" and "formats e bid"
  shows "get_pipeline_status e pid bid (status_checks c) = Inr PNone
       \<and> reports_pending e pid bid (status_checks c)
       \<and> (\<forall>attempt. attempt < max_attempts \<longrightarrow>
            poll_status e pid bid attempt c =
              poll_status e pid bid (Suc attempt)
                (sleep (c\<lparr>status_checks := Suc (status_checks c)\<rparr>)))
       \<and> (\<forall>st. state_get st ''pipeline_id'' PNone = pid \<and> state_get st ''build_id'' PNone = bid
                \<and> truthy pid \<and> truthy bid \<longrightarrow>
             Suc (Suc (status_checks c)) \<le> status_checks (snd (check_pipeline_status e st c)))"
proof -
  have g: "get_pipeline_status e pid bid (status_checks c) = Inr PNone"
    using assms by (rule io_failure_no_run_info)
  have p: "reports_pending e pid bid (status_checks c)"
    using assms by (rule io_failure_pending)
  have s: "poll_status e pid bid attempt c =
              poll_status e pid bid (Suc attempt)
                (sleep (c\<lparr>status_checks := Suc (status_checks c)\<rparr>))"
    if "attempt < max_attempts" for attempt
    using that poll_pass_pending[OF p assms(2,4)] by (rule poll_status_step_pending)
  have n: "Suc (Suc (status_checks c)) \<le> status_checks (snd (check_pipeline_status e st c))"
    if "state_get st ''pipeline_id'' PNone = pid \<and> state_get st ''build_id'' PNone = bid
          \<and> truthy pid \<and> truthy bid"
    for st
  proof -
    have "io_failure (pipeline_run_get e (status_checks (sleep c)))"
      using assms(1) by (simp add: sleep_def)
    from io_failure_not_last_check[OF this assms(2,3,4)]
    have "Suc (Suc (status_checks c)) \<le> status_checks (snd (poll_status e pid bid 0 (sleep c)))"
      by (simp add: sleep_def)
    moreover have "check_pipeline_status e st c = poll_status e pid bid 0 (sleep c)"
      using that assms(2,3,4) by (intro check_pipeline_status_polls) simp_all
    ultimately show ?thesis by simp
  qed
  show ?thesis using g p s n by blast
qed

theorem io_failure_is_retried_witness:
  "get_pipeline_status third_try_env (PInt 7) (PInt 42) 0 = Inr PNone
   \<and> poll_status third_try_env (PInt 7) (PInt 42) 0 ctr0 =
     poll_status third_try_env (PInt 7) (PInt 42) (Suc 0) (sleep (ctr0\<lparr>status_checks := Suc 0\<rparr>))
   \<and> 2 \<le> status_checks (snd (check_pipeline_status third_try_env built_state ctr0))"
proof -
  have a: "io_failure (pipeline_run_get third_try_env (status_checks ctr0))"
    by (simp add: io_failure_def third_try_env_def ctr0_def)
  have b: "0 < max_attempts" by (simp add: max_attempts_def)
  have s: "state_get built_state ''pipeline_id'' PNone = PInt 7
         \<and> state_get built_state ''build_id'' PNone = PInt 42
         \<and> truthy (PInt 7) \<and> truthy (PInt 42)"
    by (simp add: built_state_def state_get_def)
  note T = io_failure_is_retried[OF a third_try_env_prints]
  from T[THEN conjunct1] T[THEN conjunct2, THEN conjunct2, THEN conjunct1] b
    T[THEN conjunct2, THEN conjunct2, THEN conjunct2, rule_format, OF s]
  show ?thesis by (simp add: ctr0_def)
qed

text \<open>
  Claim C7 as stated fails where it says that aborting on an I/O failure is a choice
  of the caller: no configuration, state or counters whose lines can be printed make
  \<open>check_pipeline_status\<close> stop at a status check that failed in this way.
\<close>

theorem io_abort_not_configurable_counterexample:
  "\<not> (\<exists>e st c. stdout_ok e
         \<and> formats e (state_get st ''pipeline_id'' PNone)
         \<and> formats e (state_get st ''build_id'' PNone)
         \<and> truthy (state_get st ''pipeline_id'' PNone)
         \<and> truthy (state_get st ''build_id'' PNone)
         \<and> io_failure (pipeline_run_get e (status_checks c))
         \<and> status_checks (snd (check_pipeline_status e st c)) = Suc (status_checks c))"
proof
  assume "\<exists>e st c. stdout_ok e
         \<and> formats e (state_get st ''pipeline_id'' PNone)
         \<and> formats e (state_get st ''build_id'' PNone)
         \<and> truthy (state_get st ''pipeline_id'' PNone)
         \<and> truthy (state_get st ''build_id'' PNone)
         \<and> io_failure (pipeline_run_get e (status_checks c))
         \<and> status_checks (snd (check_pipeline_status e st c)) = Suc (status_checks c)"
  then obtain e st c where o: "stdout_ok e"
      "formats e (state_get st ''pipeline_id'' PNone)"
      "formats e (state_get st ''build_id'' PNone)"
    and t: "truthy (state_get st ''pipeline_id'' PNone)"
      "truthy (state_get st ''build_id'' PNone)"
    and f: "io_failure (pipeline_run_get e (status_checks c))"
    and one: "status_checks (snd (check_pipeline_status e st c)) = Suc (status_checks c)"
    by blast
  have "io_failure (pipeline_run_get e (status_checks (sleep c)))"
    using f by (simp add: sleep_def)
  from io_failure_not_last_check[OF this o]
  have "Suc (Suc (status_checks c)) \<le>
      status_checks (snd (poll_status e (state_get st ''pipeline_id'' PNone)
                            (state_get st ''build_id'' PNone) 0 (sleep c)))"
    by (simp add: sleep_def)
  moreover have "check_pipeline_status e st c =
      poll_status e (state_get st ''pipeline_id'' PNone) (state_get st ''build_id'' PNone) 0
        (sleep c)"
    using t o by (intro check_pipeline_status_polls) simp_all
  ultimately show False using one by simp
qed

subsection \<open>Which nodes can raise\<close>

lemma find_albert_returns:
  "\<forall>m\<in>set ms. is_record m \<Longrightarrow> \<exists>v c'. find_albert e ms c = (Inr v, c')"
proof (induction ms arbitrary: c)
  case Nil
  then show ?case by simp
next
  case (Cons m ms)
  then obtain kvs where m: "m = PDict kvs"
    by (cases m) (simp_all add: is_record_def)
  let ?c1 = "c\<lparr>users_calls := Suc (users_calls c)\<rparr>"
  from Cons obtain v c' where r: "find_albert e ms ?c1 = (Inr v, c')"
    by (metis list.set_intros(2))
  show ?case
    by (cases "user_is_albert (users_info e (users_calls c))") (auto simp: m r Let_def)
qed

lemma consult_slack_messages_returns:
  "st ''channel'' \<noteq> None \<Longrightarrow>
   \<exists>u c'. consult_slack_messages e st c = (Inr u, c')
      \<and> (written u ''error'' \<noteq> None \<or> (\<exists>m. u = [(''slack_messages'', m)]))"
  by (auto simp: consult_slack_messages_def state_item_def Let_def written_def
      split: sum.splits)

lemma check_albert_message_returns:
  assumes "st ''slack_messages'' = None \<or>
           (\<exists>ms. st ''slack_messages'' = Some (PList ms) \<and> (\<forall>m\<in>set ms. is_record m))"
  shows "\<exists>u c'. check_albert_message e st c = (Inr u, c')
      \<and> (written u ''llm_approval'' = Some (PStr ''Approved'')
          \<or> written u ''llm_approval'' = Some (PStr ''Rejected''))"
proof -
  from assms obtain ms where it: "py_iter (state_get st ''slack_messages'' (PList [])) = Inr ms"
    and rec: "\<forall>m\<in>set ms. is_record m"
    by (auto simp: state_get_def)
  from find_albert_returns[OF rec] obtain v c1 where f: "find_albert e ms c = (Inr v, c1)"
    by blast
  show ?thesis
    by (cases "bind_exn (llm_invoke e (llm_calls c1)) strip_val")
       (auto simp: check_albert_message_def it f Let_def written_def not_found_update_def)
qed

lemma llm_node_returns_iff:
  "(\<exists>u c'. llm_node reads writes e st c = (Inr u, c')) =
   (st reads \<noteq> None \<and> (\<exists>content. llm_invoke e (llm_calls c) = Inr content))"
  by (auto simp: llm_node_def state_item_def Let_def split: option.splits sum.splits)

lemma after_trigger_update:
  "after_trigger e p r = Inr u \<Longrightarrow>
   written u ''error'' \<noteq> None \<or> written u ''build_status'' = Some (PStr ''InProgress'')"
  by (auto simp: after_trigger_def bind_exn_def written_def split: if_splits sum.splits)

lemma trigger_pipeline_handler_update: "written (trigger_pipeline_handler ex) ''error'' \<noteq> None"
  by (cases ex) (simp_all add: written_def)

lemma trigger_pipeline_update:
  "\<exists>u c'. trigger_pipeline e st c = (Inr u, c')
      \<and> (written u ''error'' \<noteq> None \<or> written u ''build_status'' = Some (PStr ''InProgress''))"
proof (cases "trigger_pipeline_body e c")
  case (Pair r c1)
  show ?thesis
  proof (cases r)
    case (Inl ex)
    with Pair show ?thesis
      using trigger_pipeline_handler_update[of ex] by (auto simp: trigger_pipeline_def)
  next
    case (Inr u)
    with Pair have "written u ''error'' \<noteq> None
        \<or> written u ''build_status'' = Some (PStr ''InProgress'')"
      by (auto simp: trigger_pipeline_body_def bind_exn_def written_def
          dest: after_trigger_update split: option.splits if_splits sum.splits)
    with Pair Inr show ?thesis by (simp add: trigger_pipeline_def)
  qed
qed

lemma poll_status_update:
  assumes "stdout_ok e"
  shows "\<exists>u c'. poll_status e p b a c = (Inr u, c')
      \<and> (written u ''error'' \<noteq> None \<or> (\<exists>msg. u = [(''build_status'', PStr msg)]))"
proof (induction "max_attempts - a" arbitrary: a c)
  case 0
  then have "\<not> a < max_attempts" by simp
  then show ?case
    using assms by (simp add: poll_status_exhausted timeout_update_def written_def)
next
  case (Suc d)
  then have lt: "a < max_attempts" and d: "d = max_attempts - Suc a" by arith+
  show ?case
  proof (cases "poll_pass e p b a (status_checks c)")
    case (Completed msg)
    with lt show ?thesis by (simp add: poll_status_step_completed)
  next
    case StillPending
    with lt Suc.hyps(1)[OF d] show ?thesis by (simp add: poll_status_step_pending)
  next
    case (Raised ex)
    with lt show ?thesis by (simp add: poll_status_step_raised written_def)
  qed
qed

lemma check_pipeline_status_no_ids:
  "\<not> truthy (state_get st ''pipeline_id'' PNone) \<or> \<not> truthy (state_get st ''build_id'' PNone) \<Longrightarrow>
   check_pipeline_status e st c =
     (Inr [(''error'', PStr ''No pipeline ID or build ID available'')], c)"
  by (auto simp: check_pipeline_status_def)

lemma check_pipeline_status_raises:
  assumes "truthy (state_get st ''pipeline_id'' PNone)"
    and "truthy (state_get st ''build_id'' PNone)"
    and "\<not> formats e (state_get st ''pipeline_id'' PNone)
         \<or> \<not> formats e (state_get st ''build_id'' PNone)"
  shows "\<exists>ex c'. check_pipeline_status e st c = (Inl ex, c')"
proof -
  have "\<exists>ex. fstring e [Lit ''Starting status polling for pipeline '',
                         Val (state_get st ''pipeline_id'' PNone), Lit '', run '',
                         Val (state_get st ''build_id'' PNone), Lit ''...''] = Inl ex"
    using assms(3) by (auto simp: formats_def split: sum.splits)
  then have "\<exists>ex. py_print e [Lit ''Starting status polling for pipeline '',
                         Val (state_get st ''pipeline_id'' PNone), Lit '', run '',
                         Val (state_get st ''build_id'' PNone), Lit ''...''] = Some ex"
    by (auto simp: py_print_def)
  then show ?thesis
    using assms(1,2)
    by (cases "py_print e [Lit ''Waiting 3 seconds before first status check...'']")
      (auto simp: check_pipeline_status_def Let_def)
qed

lemma str_nat_length: "10 ^ k \<le> n \<Longrightarrow> k < length (str_nat n)"
proof (induction k arbitrary: n)
  case 0
  show ?case by (subst str_nat.simps) simp
next
  case (Suc k)
  have "(10::nat) \<le> 10 * 10 ^ k" by simp
  also have "\<dots> = 10 ^ Suc k" by simp
  also have "\<dots> \<le> n" by (rule Suc.prems)
  finally have "10 \<le> n" .
  moreover have "10 ^ k \<le> n div 10" using Suc.prems by simp
  ultimately show ?case using Suc.IH[of "n div 10"] by (simp add: str_nat_step)
qed

lemma long_id_no_text: "py_str pending_env (PInt long_id) = Inl (digit_limit_error 4300)"
proof -
  have "nat \<bar>long_id\<bar> = 10 ^ 4300"
    unfolding long_id_def
    by (simp only: power_abs abs_numeral nat_power_eq abs_ge_zero nat_numeral)
  then have "4300 < length (str_nat (nat \<bar>long_id\<bar>))"
    by (simp only: str_nat_length[OF order_refl])
  moreover have "int_max_str_digits pending_env = Some 4300" by (simp add: pending_env_def)
  ultimately show ?thesis by (simp add: py_str_def)
qed

lemma long_id_nonzero: "long_id \<noteq> 0"
  unfolding long_id_def by (simp only: power_eq_0_iff) simp


text \<open>
  Claim C4, as amended. \<open>trigger_pipeline\<close> returns a partial update on every state
  and in every environment, and the update has an \<open>error\<close> field unless it reports the
  run as started. \<open>check_pipeline_status\<close> returns the error update on a state without
  pipeline id or build id; on a state with both it returns an update when its lines can
  be printed (standard output takes every text and both ids have a text), with an
  \<open>error\<close> field unless the update is \<open>{build_status: msg}\<close>, and it raises when one of
  the ids has no text. \<open>consult_slack_messages\<close> returns an update on every state that
  has a \<open>channel\<close> field, with an \<open>error\<close> field unless the update is
  \<open>{slack_messages: m}\<close>, and reports an exception of the channel lookup in the \<open>error\<close>
  field. \<open>check_albert_message\<close> returns an update whose \<open>llm_approval\<close> is \<open>"Approved"\<close>
  or \<open>"Rejected"\<close> on every state whose \<open>slack_messages\<close> is absent or a list of records.
  The nodes of the joke workflow have no handler: on a state whose field read is
  absent or a str, each returns an update exactly when the field is present and the
  language-model call returns, and raises otherwise.
\<close>

theorem nodes_return_or_raise:
  "(\<exists>u c'. trigger_pipeline e st c = (Inr u, c')
      \<and> (written u ''error'' \<noteq> None \<or> written u ''build_status'' = Some (PStr ''InProgress'')))
   \<and> (\<not> truthy (state_get st ''pipeline_id'' PNone) \<or> \<not> truthy (state_get st ''build_id'' PNone)
        \<longrightarrow> check_pipeline_status e st c =
              (Inr [(''error'', PStr ''No pipeline ID or build ID available'')], c))
   \<and> (truthy (state_get st ''pipeline_id'' PNone) \<and> truthy (state_get st ''build_id'' PNone)
        \<and> stdout_ok e \<and> formats e (state_get st ''pipeline_id'' PNone)
        \<and> formats e (state_get st ''build_id'' PNone)
        \<longrightarrow> (\<exists>u c'. check_pipeline_status e st c = (Inr u, c')
              \<and> (written u ''error'' \<noteq> None \<or> (\<exists>msg. u = [(''build_status'', PStr msg)]))))
   \<and> (truthy (state_get st ''pipeline_id'' PNone) \<and> truthy (state_get st ''build_id'' PNone)
        \<and> (\<not> formats e (state_get st ''pipeline_id'' PNone)
             \<or> \<not> formats e (state_get st ''build_id'' PNone))
        \<longrightarrow> (\<exists>ex c'. check_pipeline_status e st c = (Inl ex, c')))
   \<and> (st ''channel'' \<noteq> None \<longrightarrow>
        (\<exists>u c'. consult_slack_messages e st c = (Inr u, c')
           \<and> (written u ''error'' \<noteq> None \<or> (\<exists>m. u = [(''slack_messages'', m)]))))
   \<and> (\<forall>ch ex. st ''channel'' = Some ch \<and> get_slack_channel_id e ch (list_calls c) = Inl ex \<longrightarrow>
         fst (consult_slack_messages e st c) =
           Inr [(''error'', PStr (''Error fetching Slack messages: '' @ str_exn ex))])
   \<and> (st ''slack_messages'' = None \<or>
        (\<exists>ms. st ''slack_messages'' = Some (PList ms) \<and> (\<forall>m\<in>set ms. is_record m)) \<longrightarrow>
        (\<exists>u c'. check_albert_message e st c = (Inr u, c')
           \<and> (written u ''llm_approval'' = Some (PStr ''Approved'')
               \<or> written u ''llm_approval'' = Some (PStr ''Rejected''))))
   \<and> (str_or_absent st ''topic'' \<longrightarrow>
        (\<exists>u c'. generate_joke e st c = (Inr u, c')) =
          (st ''topic'' \<noteq> None \<and> (\<exists>content. llm_invoke e (llm_calls c) = Inr content)))
   \<and> (str_or_absent st ''joke'' \<longrightarrow>
        (\<exists>u c'. improve_joke e st c = (Inr u, c')) =
          (st ''joke'' \<noteq> None \<and> (\<exists>content. llm_invoke e (llm_calls c) = Inr content)))
   \<and> (str_or_absent st ''improved_joke'' \<longrightarrow>
        (\<exists>u c'. polish_joke e st c = (Inr u, c')) =
          (st ''improved_joke'' \<noteq> None \<and> (\<exists>content. llm_invoke e (llm_calls c) = Inr content)))
   \<and> (str_or_absent st ''joke'' \<longrightarrow>
        (\<exists>u c'. ask_for_applause e st c = (Inr u, c')) =
          (st ''joke'' \<noteq> None \<and> (\<exists>content. llm_invoke e (llm_calls c) = Inr content)))"
proof -
  let ?pid = "state_get st ''pipeline_id'' PNone"
  let ?bid = "state_get st ''build_id'' PNone"
  have a: "\<exists>u c'. trigger_pipeline e st c = (Inr u, c')
      \<and> (written u ''error'' \<noteq> None \<or> written u ''build_status'' = Some (PStr ''InProgress''))"
    by (rule trigger_pipeline_update)
  have b1: "\<not> truthy ?pid \<or> \<not> truthy ?bid
        \<longrightarrow> check_pipeline_status e st c =
              (Inr [(''error'', PStr ''No pipeline ID or build ID available'')], c)"
    using check_pipeline_status_no_ids[of st e c] by blast
  have b2: "truthy ?pid \<and> truthy ?bid \<and> stdout_ok e \<and> formats e ?pid \<and> formats e ?bid
        \<longrightarrow> (\<exists>u c'. check_pipeline_status e st c = (Inr u, c')
              \<and> (written u ''error'' \<noteq> None \<or> (\<exists>msg. u = [(''build_status'', PStr msg)])))"
  proof
    assume h: "truthy ?pid \<and> truthy ?bid \<and> stdout_ok e \<and> formats e ?pid \<and> formats e ?bid"
    then have "check_pipeline_status e st c = poll_status e ?pid ?bid 0 (sleep c)"
      by (intro check_pipeline_status_polls) simp_all
    with h poll_status_update[of e ?pid ?bid 0 "sleep c"]
    show "\<exists>u c'. check_pipeline_status e st c = (Inr u, c')
              \<and> (written u ''error'' \<noteq> None \<or> (\<exists>msg. u = [(''build_status'', PStr msg)]))"
      by simp
  qed
  have b3: "truthy ?pid \<and> truthy ?bid \<and> (\<not> formats e ?pid \<or> \<not> formats e ?bid)
        \<longrightarrow> (\<exists>ex c'. check_pipeline_status e st c = (Inl ex, c'))"
    using check_pipeline_status_raises[of st e c] by blast
  have d: "fst (consult_slack_messages e st c) =
           Inr [(''error'', PStr (''Error fetching Slack messages: '' @ str_exn ex))]"
    if "st ''channel'' = Some ch \<and> get_slack_channel_id e ch (list_calls c) = Inl ex" for ch ex
    using that by (simp add: consult_slack_messages_def state_item_def)
  have j: "(\<exists>u c'. generate_joke e st c = (Inr u, c')) =
        (st ''topic'' \<noteq> None \<and> (\<exists>content. llm_invoke e (llm_calls c) = Inr content))"
    "(\<exists>u c'. improve_joke e st c = (Inr u, c')) =
        (st ''joke'' \<noteq> None \<and> (\<exists>content. llm_invoke e (llm_calls c) = Inr content))"
    "(\<exists>u c'. polish_joke e st c = (Inr u, c')) =
        (st ''improved_joke'' \<noteq> None \<and> (\<exists>content. llm_invoke e (llm_calls c) = Inr content))"
    "(\<exists>u c'. ask_for_applause e st c = (Inr u, c')) =
        (st ''joke'' \<noteq> None \<and> (\<exists>content. llm_invoke e (llm_calls c) = Inr content))"
    by (simp_all only: generate_joke_def improve_joke_def polish_joke_def ask_for_applause_def
        llm_node_returns_iff)
  have k: "st ''channel'' \<noteq> None \<longrightarrow>
        (\<exists>u c'. consult_slack_messages e st c = (Inr u, c')
           \<and> (written u ''error'' \<noteq> None \<or> (\<exists>m. u = [(''slack_messages'', m)])))"
    using consult_slack_messages_returns[of st e c] by blast
  have l: "st ''slack_messages'' = None \<or>
        (\<exists>ms. st ''slack_messages'' = Some (PList ms) \<and> (\<forall>m\<in>set ms. is_record m)) \<longrightarrow>
        (\<exists>u c'. check_albert_message e st c = (Inr u, c')
           \<and> (written u ''llm_approval'' = Some (PStr ''Approved'')
               \<or> written u ''llm_approval'' = Some (PStr ''Rejected'')))"
    using check_albert_message_returns[of st e c] by blast
  have d': "\<forall>ch ex. st ''channel'' = Some ch \<and> get_slack_channel_id e ch (list_calls c) = Inl ex \<longrightarrow>
         fst (consult_slack_messages e st c) =
           Inr [(''error'', PStr (''Error fetching Slack messages: '' @ str_exn ex))]"
    using d by blast
  show ?thesis
    by (intro conjI impI a b1 b2 b3 k d' l j)
qed

lemma pending_env_channel_lookup:
  "get_slack_channel_id pending_env (PStr ''general'') n = Inl (RuntimeFailure ''down'')"
  by (simp add: get_slack_channel_id_def pending_env_def)

theorem nodes_return_or_raise_witness:
  "(\<exists>u c'. check_pipeline_status pending_env built_state ctr0 = (Inr u, c')
      \<and> (written u ''error'' \<noteq> None \<or> (\<exists>msg. u = [(''build_status'', PStr msg)])))
   \<and> check_pipeline_status pending_env Map.empty ctr0 =
        (Inr [(''error'', PStr ''No pipeline ID or build ID available'')], ctr0)
   \<and> (\<exists>ex c'. check_pipeline_status pending_env long_id_state ctr0 = (Inl ex, c'))
   \<and> fst (consult_slack_messages pending_env built_state ctr0) =
        Inr [(''error'', PStr (''Error fetching Slack messages: down''))]
   \<and> (\<exists>u c'. check_albert_message pending_env built_state ctr0 = (Inr u, c')
        \<and> (written u ''llm_approval'' = Some (PStr ''Approved'')
            \<or> written u ''llm_approval'' = Some (PStr ''Rejected'')))
   \<and> (\<exists>u c'. generate_joke joke_env [''topic'' \<mapsto> PStr ''cats''] ctr0 = (Inr u, c'))"
proof -
  have a: "truthy (state_get built_state ''pipeline_id'' PNone)
        \<and> truthy (state_get built_state ''build_id'' PNone)
        \<and> stdout_ok pending_env \<and> formats pending_env (state_get built_state ''pipeline_id'' PNone)
        \<and> formats pending_env (state_get built_state ''build_id'' PNone)"
    by (simp add: built_state_def state_get_def pending_env_stdout_ok formats_def
        pending_env_str_7 pending_env_str_42)
  have b: "\<not> truthy (state_get Map.empty ''pipeline_id'' PNone)
        \<or> \<not> truthy (state_get Map.empty ''build_id'' PNone)"
    by (simp add: state_get_def)
  have r: "truthy (state_get long_id_state ''pipeline_id'' PNone)
        \<and> truthy (state_get long_id_state ''build_id'' PNone)
        \<and> (\<not> formats pending_env (state_get long_id_state ''pipeline_id'' PNone)
             \<or> \<not> formats pending_env (state_get long_id_state ''build_id'' PNone))"
    by (simp add: long_id_state_def state_get_def long_id_nonzero formats_def long_id_no_text)
  have d: "built_state ''channel'' = Some (PStr ''general'')
        \<and> get_slack_channel_id pending_env (PStr ''general'') (list_calls ctr0) =
            Inl (RuntimeFailure ''down'')"
    by (simp add: built_state_def pending_env_channel_lookup)
  have l: "built_state ''slack_messages'' = None \<or>
        (\<exists>ms. built_state ''slack_messages'' = Some (PList ms) \<and> (\<forall>m\<in>set ms. is_record m))"
    by (simp add: built_state_def)
  note T1 = nodes_return_or_raise[of pending_env built_state ctr0]
  note T2 = nodes_return_or_raise[of pending_env Map.empty ctr0]
  note T3 = nodes_return_or_raise[of pending_env long_id_state ctr0]
  have 1: "\<exists>u c'. check_pipeline_status pending_env built_state ctr0 = (Inr u, c')
      \<and> (written u ''error'' \<noteq> None \<or> (\<exists>msg. u = [(''build_status'', PStr msg)]))"
    using T1[THEN conjunct2, THEN conjunct2, THEN conjunct1] a by blast
  have 2: "check_pipeline_status pending_env Map.empty ctr0 =
        (Inr [(''error'', PStr ''No pipeline ID or build ID available'')], ctr0)"
    using T2[THEN conjunct2, THEN conjunct1] b by blast
  have 3: "\<exists>ex c'. check_pipeline_status pending_env long_id_state ctr0 = (Inl ex, c')"
    using T3[THEN conjunct2, THEN conjunct2, THEN conjunct2, THEN conjunct1] r by blast
  have 4: "fst (consult_slack_messages pending_env built_state ctr0) =
        Inr [(''error'', PStr (''Error fetching Slack messages: down''))]"
    using T1[THEN conjunct2, THEN conjunct2, THEN conjunct2, THEN conjunct2, THEN conjunct2,
        THEN conjunct1, rule_format, OF d] by simp
  have 5: "\<exists>u c'. check_albert_message pending_env built_state ctr0 = (Inr u, c')
        \<and> (written u ''llm_approval'' = Some (PStr ''Approved'')
            \<or> written u ''llm_approval'' = Some (PStr ''Rejected''))"
    using T1[THEN conjunct2, THEN conjunct2, THEN conjunct2, THEN conjunct2, THEN conjunct2,
        THEN conjunct2, THEN conjunct1] l by blast
  have j: "str_or_absent [''topic'' \<mapsto> PStr ''cats''] ''topic''"
    "[''topic'' \<mapsto> PStr ''cats''] ''topic'' \<noteq> None
      \<and> (\<exists>content. llm_invoke joke_env (llm_calls ctr0) = Inr content)"
    by (simp_all add: str_or_absent_def joke_env_def ctr0_def)
  have 6: "\<exists>u c'. generate_joke joke_env [''topic'' \<mapsto> PStr ''cats''] ctr0 = (Inr u, c')"
    using nodes_return_or_raise[of joke_env "[''topic'' \<mapsto> PStr ''cats'']" ctr0,
        THEN conjunct2, THEN conjunct2, THEN conjunct2, THEN conjunct2, THEN conjunct2,
        THEN conjunct2, THEN conjunct2, THEN conjunct1, rule_format, OF j(1)] j(2)
    by simp
  show ?thesis by (intro conjI 1 2 3 4 5 6)
qed

text \<open>
  Claim C4 as stated fails: \<open>generate_joke\<close> raises what the language-model call
  raises, \<open>consult_slack_messages\<close> raises \<open>KeyError\<close> on a state without \<open>channel\<close>, and
  \<open>check_pipeline_status\<close> raises \<open>ValueError\<close> on a state whose build id has 4301 digits:
  the line printed before the loop (line 328) formats the id outside the \<open>try\<close> block.
\<close>

theorem node_raises_counterexample:
  "generate_joke pending_env [''topic'' \<mapsto> PStr ''cats''] ctr0 =
     (Inl (RuntimeFailure ''down''), ctr0\<lparr>llm_calls := 1\<rparr>)
   \<and> consult_slack_messages pending_env Map.empty ctr0 = (Inl (KeyError ''channel''), ctr0)
   \<and> check_pipeline_status pending_env long_id_state ctr0 =
       (Inl (ValueError (''Exceeds the limit (4300 digits) for integer string conversion; '' @
                         ''use sys.set_int_max_str_digits() to increase the limit'')),
        ctr0\<lparr>sleeps := 1\<rparr>)"
proof -
  have 1: "generate_joke pending_env [''topic'' \<mapsto> PStr ''cats''] ctr0 =
     (Inl (RuntimeFailure ''down''), ctr0\<lparr>llm_calls := 1\<rparr>)"
    by (simp add: generate_joke_def llm_node_def state_item_def pending_env_def ctr0_def)
  have 2: "consult_slack_messages pending_env Map.empty ctr0 = (Inl (KeyError ''channel''), ctr0)"
    by (simp add: consult_slack_messages_def state_item_def)
  have s: "str_nat 4300 = ''4300''"
    by (simp add: str_nat_step str_nat_small digit_char_def)
  have p: "py_print pending_env [Lit ''Waiting 3 seconds before first status check...''] = None"
    by (simp add: py_print_def pending_env_def)
  have q: "py_print pending_env [Lit ''Starting status polling for pipeline '', Val (PInt 7),
                                Lit '', run '', Val (PInt long_id), Lit ''...''] =
       Some (ValueError (''Exceeds the limit (4300 digits) for integer string conversion; '' @
                         ''use sys.set_int_max_str_digits() to increase the limit''))"
    by (simp add: py_print_def pending_env_str_7 long_id_no_text digit_limit_error_def s)
  have 3: "check_pipeline_status pending_env long_id_state ctr0 =
       (Inl (ValueError (''Exceeds the limit (4300 digits) for integer string conversion; '' @
                         ''use sys.set_int_max_str_digits() to increase the limit'')),
        ctr0\<lparr>sleeps := 1\<rparr>)"
    by (simp add: check_pipeline_status_def long_id_state_def state_get_def p q
        long_id_nonzero sleep_def ctr0_def)
  show ?thesis by (intro conjI 1 2 3)
qed

end
